theory Spec2Isabelle
  imports Main
begin

section \<open>Strings\<close>

text \<open>
  JavaScript strings are modelled as HOL strings (lists of characters). The only
  characters the program inspects are the ASCII characters \<open>{\<close>, \<open>}\<close>, \<open>:\<close> and the
  decimal digits; everything else is copied through.
\<close>

definition newline :: string where
  "newline = [CHR 0x0A]"

text \<open>\<^verbatim>\<open>Array.prototype.join\<close>: the elements separated by \<open>sep\<close>; the empty array gives
  the empty string.\<close>

fun join :: "string \<Rightarrow> string list \<Rightarrow> string" where
  "join sep [] = []"
| "join sep [x] = x"
| "join sep (x # y # ys) = x @ sep @ join sep (y # ys)"

text \<open>\<^verbatim>\<open>String.prototype.repeat\<close>.\<close>

fun repeat :: "string \<Rightarrow> nat \<Rightarrow> string" where
  "repeat s 0 = []"
| "repeat s (Suc n) = s @ repeat s n"

text \<open>The class \<^verbatim>\<open>\d\<close> of a regular expression without the unicode flag: the ten ASCII
  digits.\<close>

definition is_digit :: "char \<Rightarrow> bool" where
  "is_digit c \<longleftrightarrow> c \<in> set ''0123456789''"

section \<open>The placeholder parser: \<^verbatim>\<open>extractParameters\<close>\<close>

record ExtractedParameter =
  name :: string
  type :: string

text \<open>
  One attempt of \<^verbatim>\<open>/\{(\d+)(?::([^}]+))?\}/\<close> at the start of the text. The result is the
  first capture group (the digit run), the second capture group (\<open>None\<close> is
  \<^verbatim>\<open>undefined\<close>: the optional group did not take part) and the text after the match.
  Both repetitions are greedy, and the character that must follow each of them (\<open>:\<close>
  or \<open>}\<close> after the digits, \<open>}\<close> after the label) is outside the repeated class, so
  backtracking into a repetition never finds another match: the longest run is the only
  candidate.
\<close>

definition paramRegex_match :: "string \<Rightarrow> (string \<times> string option \<times> string) option" where
  "paramRegex_match s =
     (case s of
        [] \<Rightarrow> None
      | c # r \<Rightarrow>
          if c \<noteq> CHR ''{'' then None
          else let index = takeWhile is_digit r; r1 = dropWhile is_digit r in
            if index = [] then None
            else (case r1 of
                [] \<Rightarrow> None
              | d # r2 \<Rightarrow>
                  if d = CHR ''}'' then Some (index, None, r2)
                  else if d = CHR '':'' then
                    (let label = takeWhile (\<lambda>x. x \<noteq> CHR ''}'') r2;
                         r3 = dropWhile (\<lambda>x. x \<noteq> CHR ''}'') r2 in
                     if label = [] then None
                     else (case r3 of [] \<Rightarrow> None | _ # r4 \<Rightarrow> Some (index, Some label, r4)))
                  else None))"

text \<open>
  \<^verbatim>\<open>paramRegex.exec(value)\<close> with the global flag: the leftmost match at or after
  \<^verbatim>\<open>lastIndex\<close>. The argument is the text from \<^verbatim>\<open>lastIndex\<close> on, the third component of
  the result is the text from the new \<^verbatim>\<open>lastIndex\<close> on; \<open>None\<close> is \<^verbatim>\<open>null\<close>.
\<close>

fun paramRegex_exec :: "string \<Rightarrow> (string \<times> string option \<times> string) option" where
  "paramRegex_exec [] = None"
| "paramRegex_exec (c # cs) =
     (case paramRegex_match (c # cs) of
        Some m \<Rightarrow> Some m
      | None \<Rightarrow> paramRegex_exec cs)"

text \<open>\<^verbatim>\<open>match[2] || `_${index}`\<close>: the label when it is a non-empty string, otherwise the
  underscore followed by the digits.\<close>

definition paramName_of :: "string \<Rightarrow> string option \<Rightarrow> string" where
  "paramName_of index label =
     (case label of
        None \<Rightarrow> CHR ''_'' # index
      | Some l \<Rightarrow> if l = [] then CHR ''_'' # index else l)"

lemma dropWhile_length_le: "length (dropWhile P xs) \<le> length xs"
  by (induction xs) auto

lemma paramRegex_match_shorter:
  assumes "paramRegex_match s = Some (i, l, r)"
  shows "length r < length s"
  using assms dropWhile_length_le[of is_digit "tl s"]
    dropWhile_length_le[of "\<lambda>x. x \<noteq> CHR ''}''" "tl (dropWhile is_digit (tl s))"]
  by (auto simp: paramRegex_match_def Let_def split: list.splits if_splits)

lemma paramRegex_exec_shorter:
  "paramRegex_exec s = Some (i, l, r) \<Longrightarrow> length r < length s"
proof (induction s)
  case Nil
  then show ?case by simp
next
  case (Cons c cs)
  show ?case
  proof (cases "paramRegex_match (c # cs)")
    case None
    with Cons show ?thesis by auto
  next
    case (Some m')
    with Cons.prems have "paramRegex_match (c # cs) = Some (i, l, r)" by simp
    then show ?thesis by (rule paramRegex_match_shorter)
  qed
qed

text \<open>The \<^verbatim>\<open>while\<close> loop of \<^verbatim>\<open>extractParameters\<close>, with its two mutable locals \<^verbatim>\<open>seen\<close>
  and \<^verbatim>\<open>parameters\<close> passed as state.\<close>

function extract_loop ::
  "string \<Rightarrow> string set \<Rightarrow> ExtractedParameter list \<Rightarrow> ExtractedParameter list" where
  "extract_loop v seen parameters =
     (case paramRegex_exec v of
        None \<Rightarrow> parameters
      | Some (index, label, rest) \<Rightarrow>
          (let paramName = paramName_of index label in
           if paramName \<notin> seen
           then extract_loop rest (insert paramName seen)
                  (parameters @ [\<lparr>name = paramName, type = ''string''\<rparr>])
           else extract_loop rest seen parameters))"
  by pat_completeness auto
termination
  by (relation "measure (\<lambda>(v, seen, parameters). length v)")
    (auto dest: paramRegex_exec_shorter)

definition extractParameters :: "string \<Rightarrow> ExtractedParameter list" where
  "extractParameters v = extract_loop v {} []"


section \<open>The signature renderer: \<^verbatim>\<open>generateFunctionSignature\<close>\<close>

text \<open>The part of \<^verbatim>\<open>generateFunctionSignature\<close> after the call of \<^verbatim>\<open>extractParameters\<close>:
  the rendering of a given parameter list.\<close>

definition render_signature :: "ExtractedParameter list \<Rightarrow> string" where
  "render_signature parameters =
     (if length parameters = 0 then ''() => string''
      else (let paramStrings = map (\<lambda>param. name param @ '': '' @ type param) parameters
            in ''('' @ join '', '' paramStrings @ '') => string''))"

definition generateFunctionSignature :: "string \<Rightarrow> string" where
  "generateFunctionSignature v = render_signature (extractParameters v)"

section \<open>Locale data\<close>

text \<open>
  The values a locale tree holds at run time. \<^verbatim>\<open>PlainLocaleData\<close> is declared as strings and
  nested objects, but the program tests every value before it uses it (\<^verbatim>\<open>typeof\<close>,
  \<^verbatim>\<open>!== null\<close>), so the other values a data file can hold are part of the model. Arrays
  and functions are not.

  An object is the list of its own properties in the order \<^verbatim>\<open>Object.entries\<close> yields
  them: the keys that are array indices first, in ascending numeric order, then every
  other key in the order of creation. Every object of the model is an ordinary object: its
  prototype is \<^verbatim>\<open>Object.prototype\<close>, as for an object literal and for what \<^verbatim>\<open>JSON.parse\<close>
  returns. A key of such an object can be any string, \<^verbatim>\<open>__proto__\<close> included.
\<close>

datatype jsval =
    JString string
  | JNumber int
  | JBoolean bool
  | JNull
  | JObject "(string \<times> jsval) list"

type_synonym PlainLocaleData = "(string \<times> jsval) list"

text \<open>
  How a call ends when it does not return. \<open>TypeError\<close> is the exception of the language.
  \<open>PrototypeMutation\<close> is no exception: it marks a call at the point where it assigns to a
  property of \<^verbatim>\<open>Object.prototype\<close> or sets the prototype of an object. Every later property
  lookup of the program, on any object, can see that change, and the values of this model
  do not hold it, so the model does not follow the program further. A result \<open>Inr\<close> is
  the result of a call that made no such change.
\<close>

datatype error = TypeError | PrototypeMutation

fun typeof :: "jsval \<Rightarrow> string" where
  "typeof (JString s) = ''string''"
| "typeof (JNumber n) = ''number''"
| "typeof (JBoolean b) = ''boolean''"
| "typeof JNull = ''object''"
| "typeof (JObject ps) = ''object''"

text \<open>The own properties of an object: whether it has one with the key \<open>k\<close>, and the
  value of that property (\<open>None\<close> when it has none).\<close>

definition has_key :: "(string \<times> 'v) list \<Rightarrow> string \<Rightarrow> bool" where
  "has_key obj k \<longleftrightarrow> k \<in> set (map fst obj)"

definition get_prop :: "(string \<times> 'v) list \<Rightarrow> string \<Rightarrow> 'v option" where
  "get_prop obj k = map_of obj k"

text \<open>The numeric value of a digit string, and the array indices: the canonical decimal
  numerals below \<open>2\<^sup>3\<^sup>2 - 1\<close>.\<close>

definition digit_value :: "char \<Rightarrow> int" where
  "digit_value c = of_char c - 48"

definition digits_value :: "string \<Rightarrow> int" where
  "digits_value ds = foldl (\<lambda>n c. 10 * n + digit_value c) 0 ds"

definition is_array_index :: "string \<Rightarrow> bool" where
  "is_array_index k \<longleftrightarrow>
     k \<noteq> [] \<and> list_all is_digit k \<and> (k = ''0'' \<or> hd k \<noteq> CHR ''0'')
     \<and> digits_value k < 4294967295"

text \<open>What an assignment does to the own properties of an object when it creates or
  replaces one (\<open>assigns_own\<close> below says when it does). An existing property keeps its
  place and takes the new value. A new property whose key is an array index goes before the first property that is not
  an array index or has a greater index; any other new property goes last.\<close>

fun replace_prop :: "(string \<times> 'v) list \<Rightarrow> string \<Rightarrow> 'v \<Rightarrow> (string \<times> 'v) list" where
  "replace_prop [] k v = []"
| "replace_prop ((k', v') # ps) k v =
     (if k' = k then (k, v) # ps else (k', v') # replace_prop ps k v)"

fun insert_index :: "(string \<times> 'v) list \<Rightarrow> string \<Rightarrow> 'v \<Rightarrow> (string \<times> 'v) list" where
  "insert_index [] k v = [(k, v)]"
| "insert_index ((k', v') # ps) k v =
     (if is_array_index k' \<and> digits_value k' < digits_value k
      then (k', v') # insert_index ps k v
      else (k, v) # (k', v') # ps)"

definition set_prop :: "(string \<times> 'v) list \<Rightarrow> string \<Rightarrow> 'v \<Rightarrow> (string \<times> 'v) list" where
  "set_prop obj k v =
     (if has_key obj k then replace_prop obj k v
      else if is_array_index k then insert_index obj k v
      else obj @ [(k, v)])"

text \<open>
  What an ordinary object inherits. The own properties of \<^verbatim>\<open>Object.prototype\<close>, before the
  program has written to it, are eleven functions and the accessor \<^verbatim>\<open>__proto__\<close>, whose
  getter returns the prototype of the object it is read on and whose setter sets that
  prototype when it is given an object or \<^verbatim>\<open>null\<close>, and does nothing when it is given
  anything else.

  \<open>key_in\<close> is \<^verbatim>\<open>key in obj\<close>: an own property, or an inherited one. \<open>read_prop\<close> is what
  \<^verbatim>\<open>obj[key]\<close> evaluates to: the value of the own property, an inherited function,
  \<^verbatim>\<open>Object.prototype\<close> itself (from the getter of \<^verbatim>\<open>__proto__\<close>), or \<^verbatim>\<open>undefined\<close>.
  \<open>assigns_own\<close> says that \<^verbatim>\<open>obj[key] = value\<close> creates or replaces an own property, which is
  \<open>set_prop\<close>; it does unless the key is \<^verbatim>\<open>__proto__\<close> and the object has no own property of
  that name, when the inherited setter runs instead.
\<close>

definition object_prototype_keys :: "string list" where
  "object_prototype_keys =
     [''constructor'', ''__defineGetter__'', ''__defineSetter__'', ''hasOwnProperty'',
      ''__lookupGetter__'', ''__lookupSetter__'', ''isPrototypeOf'', ''propertyIsEnumerable'',
      ''toString'', ''valueOf'', ''__proto__'', ''toLocaleString'']"

definition key_in :: "PlainLocaleData \<Rightarrow> string \<Rightarrow> bool" where
  "key_in obj k \<longleftrightarrow> has_key obj k \<or> k \<in> set object_prototype_keys"

datatype property = Value jsval | Function | ObjectPrototype | Undefined

definition read_prop :: "PlainLocaleData \<Rightarrow> string \<Rightarrow> property" where
  "read_prop obj k =
     (case get_prop obj k of
        Some v \<Rightarrow> Value v
      | None \<Rightarrow>
          (if k = ''__proto__'' then ObjectPrototype
           else if k \<in> set object_prototype_keys then Function
           else Undefined))"

fun typeof_property :: "property \<Rightarrow> string" where
  "typeof_property (Value v) = typeof v"
| "typeof_property Function = ''function''"
| "typeof_property ObjectPrototype = ''object''"
| "typeof_property Undefined = ''undefined''"

definition assigns_own :: "PlainLocaleData \<Rightarrow> string \<Rightarrow> bool" where
  "assigns_own obj k \<longleftrightarrow> has_key obj k \<or> k \<noteq> ''__proto__''"

section \<open>The tree merger: \<^verbatim>\<open>deepMerge\<close> and \<^verbatim>\<open>mergeLocaleData\<close>\<close>

text \<open>
  \<^verbatim>\<open>deepMerge(target, source)\<close> updates \<open>target\<close> in place and returns nothing; the model
  returns the updated target. The second argument is what is left of
  \<^verbatim>\<open>Object.entries(source)\<close>. The object found or created at \<^verbatim>\<open>target[key]\<close> is updated by
  the recursive call and stays at its key.

  A recursive call can reach a target that is not an object of the accumulator.
  \<^verbatim>\<open>typeof null\<close> is \<^verbatim>\<open>'object'\<close>, so a \<^verbatim>\<open>null\<close> at \<^verbatim>\<open>target[key]\<close> is kept and passed down. With
  such a target the first entry of the source raises a \<^verbatim>\<open>TypeError\<close> (\<^verbatim>\<open>key in null\<close>, or the
  assignment to a property of \<^verbatim>\<open>null\<close>); with no entry the loop body never runs. And for the
  key \<^verbatim>\<open>__proto__\<close>, on a target without an own property of that name, \<^verbatim>\<open>key in target\<close> holds
  and \<^verbatim>\<open>target[key]\<close> is \<^verbatim>\<open>Object.prototype\<close>, so the call recurses into \<^verbatim>\<open>Object.prototype\<close>:
  that is \<open>deepMerge_Object_prototype\<close>, the same loop with \<^verbatim>\<open>Object.prototype\<close> as target.
  There any key but \<^verbatim>\<open>__proto__\<close> is assigned to, as \<^verbatim>\<open>{}\<close> or as the incoming value, which
  is a \<open>PrototypeMutation\<close>. At the
  key \<^verbatim>\<open>__proto__\<close> the setter ignores a string, a number and a boolean, \<^verbatim>\<open>null\<close> is the
  prototype \<^verbatim>\<open>Object.prototype\<close> has already, and for an object the getter returns that
  \<^verbatim>\<open>null\<close>, into which the call recurses.

  When the condition of the inner \<^verbatim>\<open>if\<close> holds, the target has an own property at the key
  or the key is not \<^verbatim>\<open>__proto__\<close>, so the assignment of \<^verbatim>\<open>{}\<close> creates or replaces an own
  property. In the \<^verbatim>\<open>else\<close> branch the incoming value is no object (arrays are not modelled), so the
  setter of \<^verbatim>\<open>__proto__\<close>, when it runs, gets \<^verbatim>\<open>null\<close>, which it makes the prototype of the
  target (a \<open>PrototypeMutation\<close>), or a value it ignores. After the inner \<^verbatim>\<open>if\<close>,
  \<^verbatim>\<open>target[key]\<close> is a value of the target or \<^verbatim>\<open>Object.prototype\<close>; the last case of the
  model, an inherited function or \<^verbatim>\<open>undefined\<close>, does not occur.
\<close>

fun deepMerge :: "jsval \<Rightarrow> PlainLocaleData \<Rightarrow> error + jsval"
  and deepMerge_Object_prototype :: "PlainLocaleData \<Rightarrow> error + unit" where
  "deepMerge target [] = Inr target"
| "deepMerge target ((key, v) # rest) =
     (case target of
        JObject t \<Rightarrow>
          (case v of
             JObject src \<Rightarrow>
               (let t1 = (if \<not> key_in t key \<or> typeof_property (read_prop t key) \<noteq> ''object''
                          then set_prop t key (JObject [])
                          else t)
                in (case read_prop t1 key of
                      Value sub \<Rightarrow>
                        (case deepMerge sub src of
                           Inl e \<Rightarrow> Inl e
                         | Inr sub' \<Rightarrow> deepMerge (JObject (set_prop t1 key sub')) rest)
                    | ObjectPrototype \<Rightarrow>
                        (case deepMerge_Object_prototype src of
                           Inl e \<Rightarrow> Inl e
                         | Inr u \<Rightarrow> deepMerge (JObject t1) rest)
                    | _ \<Rightarrow> Inl TypeError))
           | _ \<Rightarrow>
               (if assigns_own t key then deepMerge (JObject (set_prop t key v)) rest
                else if v = JNull then Inl PrototypeMutation
                else deepMerge (JObject t) rest))
      | _ \<Rightarrow> Inl TypeError)"
| "deepMerge_Object_prototype [] = Inr ()"
| "deepMerge_Object_prototype ((key, v) # rest) =
     (if key = ''__proto__''
      then (case v of
              JObject src \<Rightarrow>
                (case deepMerge JNull src of
                   Inl e \<Rightarrow> Inl e
                 | Inr u \<Rightarrow> deepMerge_Object_prototype rest)
            | _ \<Rightarrow> deepMerge_Object_prototype rest)
      else Inl PrototypeMutation)"

text \<open>The \<^verbatim>\<open>for\<close> loop of \<^verbatim>\<open>mergeLocaleData\<close> over its arguments, with \<^verbatim>\<open>merged\<close> as
  state; an exception ends it.\<close>

fun merge_loop :: "jsval \<Rightarrow> PlainLocaleData list \<Rightarrow> error + jsval" where
  "merge_loop merged [] = Inr merged"
| "merge_loop merged (localeData # others) =
     (case deepMerge merged localeData of
        Inl e \<Rightarrow> Inl e
      | Inr merged' \<Rightarrow> merge_loop merged' others)"

definition mergeLocaleData :: "PlainLocaleData list \<Rightarrow> error + jsval" where
  "mergeLocaleData localeDataArray = merge_loop (JObject []) localeDataArray"

section \<open>The declaration emitter: \<^verbatim>\<open>processLocaleData\<close>\<close>

text \<open>The \<^verbatim>\<open>for\<close> loop over \<^verbatim>\<open>Object.entries(data)\<close> with the array \<^verbatim>\<open>lines\<close> as state. A
  value that is neither a string nor a non-null object pushes nothing.\<close>

fun processLocaleData :: "PlainLocaleData \<Rightarrow> nat \<Rightarrow> string"
  and process_entries :: "nat \<Rightarrow> string list \<Rightarrow> PlainLocaleData \<Rightarrow> string list" where
  "processLocaleData data depth = join newline (process_entries depth [] data)"
| "process_entries depth lines [] = lines"
| "process_entries depth lines ((key, v) # rest) =
     (let indent = repeat ''  '' (depth + 3) in
      case v of
        JString s \<Rightarrow>
          (let signature = generateFunctionSignature s in
           process_entries depth (lines @ [indent @ key @ '': '' @ signature @ '';'']) rest)
      | JObject ps \<Rightarrow>
          process_entries depth
            (lines @ [indent @ key @ '': {'', processLocaleData ps (depth + 1), indent @ ''};''])
            rest
      | _ \<Rightarrow> process_entries depth lines rest)"

section \<open>The source normaliser: \<^verbatim>\<open>extractPlainLocaleDataFromTessen\<close>\<close>

text \<open>
  What the program reads of a \<^verbatim>\<open>Tessen\<close> instance. \<^verbatim>\<open>tessen.cache.locales\<close> is the list of
  its locales in iteration order. A locale whose private \<^verbatim>\<open>contents\<close> collection is
  there is the list of that collection's entries, each the \<^verbatim>\<open>data\<close> of the entry (\<open>None\<close>
  for an entry without data); any other locale is the list of the values of its
  \<^verbatim>\<open>content\<close> collection. A content value is a string, a function (of which the program
  reads the \<^verbatim>\<open>length\<close>), an object, or something else.
\<close>

datatype ContentValue =
    CString string
  | CFunction nat
  | CObject "(string \<times> ContentValue) list"
  | COther

datatype Locale =
    RawContents "PlainLocaleData option list"
  | ContentOnly "ContentValue list"

type_synonym Tessen = "Locale list"

text \<open>The decimal numeral of a natural number, as a template literal prints it.\<close>

definition digit_char :: "nat \<Rightarrow> char" where
  "digit_char d = ''0123456789'' ! d"

function string_of_nat :: "nat \<Rightarrow> string" where
  "string_of_nat n =
     (if n < 10 then [digit_char n] else string_of_nat (n div 10) @ [digit_char (n mod 10)])"
  by pat_completeness auto
termination
  by (relation "measure (\<lambda>n. n)") auto

definition extractParametersFromFunction :: "nat \<Rightarrow> string" where
  "extractParametersFromFunction paramCount =
     (if paramCount = 0 then []
      else (let params = map (\<lambda>i. ''{'' @ string_of_nat i @ ''}'') [0..<paramCount]
            in join '' '' params))"

text \<open>
  \<^verbatim>\<open>result\<close> is a new object, which the program afterwards reads through
  \<^verbatim>\<open>Object.entries\<close> only, as the source of a merge. For an entry \<^verbatim>\<open>__proto__\<close> the assignment
  \<^verbatim>\<open>result[key] = extracted\<close> runs the inherited setter: \<^verbatim>\<open>result\<close> gets no own property. (An
  extracted object becomes the prototype of \<^verbatim>\<open>result\<close>, which nothing reads.)
\<close>

fun extractPlainDataFromContentValue :: "ContentValue \<Rightarrow> jsval"
  and extract_object :: "PlainLocaleData \<Rightarrow> (string \<times> ContentValue) list \<Rightarrow> PlainLocaleData" where
  "extractPlainDataFromContentValue (CString s) = JString s"
| "extractPlainDataFromContentValue (CFunction paramCount) =
     JString (extractParametersFromFunction paramCount)"
| "extractPlainDataFromContentValue (CObject entries) = JObject (extract_object [] entries)"
| "extractPlainDataFromContentValue COther = JString []"
| "extract_object result [] = result"
| "extract_object result ((key, subValue) # rest) =
     (if key = ''length'' \<or> key = ''name'' \<or> key = ''prototype''
      then extract_object result rest
      else (let extracted = extractPlainDataFromContentValue subValue
            in if assigns_own result key
               then extract_object (set_prop result key extracted) rest
               else extract_object result rest))"

text \<open>The inner loop over the entries of \<^verbatim>\<open>rawContents\<close>, the fallback over
  \<^verbatim>\<open>locale.content\<close> (which leaves the loop after its first value), and the outer loop
  over the locales, each with \<^verbatim>\<open>mergedData\<close> as state.\<close>

fun merge_contents :: "jsval \<Rightarrow> PlainLocaleData option list \<Rightarrow> error + jsval" where
  "merge_contents mergedData [] = Inr mergedData"
| "merge_contents mergedData (None # rest) = merge_contents mergedData rest"
| "merge_contents mergedData (Some d # rest) =
     (case deepMerge mergedData d of
        Inl e \<Rightarrow> Inl e
      | Inr mergedData' \<Rightarrow> merge_contents mergedData' rest)"

fun merge_fallback :: "jsval \<Rightarrow> ContentValue list \<Rightarrow> error + jsval" where
  "merge_fallback mergedData [] = Inr mergedData"
| "merge_fallback mergedData (contentValue # rest) =
     (case extractPlainDataFromContentValue contentValue of
        JObject plainData \<Rightarrow> deepMerge mergedData plainData
      | _ \<Rightarrow> Inr mergedData)"

fun merge_locales :: "jsval \<Rightarrow> Locale list \<Rightarrow> error + jsval" where
  "merge_locales mergedData [] = Inr mergedData"
| "merge_locales mergedData (RawContents rawContents # rest) =
     (case merge_contents mergedData rawContents of
        Inl e \<Rightarrow> Inl e
      | Inr mergedData' \<Rightarrow> merge_locales mergedData' rest)"
| "merge_locales mergedData (ContentOnly content # rest) =
     (case merge_fallback mergedData content of
        Inl e \<Rightarrow> Inl e
      | Inr mergedData' \<Rightarrow> merge_locales mergedData' rest)"

definition extractPlainLocaleDataFromTessen :: "Tessen \<Rightarrow> error + jsval" where
  "extractPlainLocaleDataFromTessen tessen = merge_locales (JObject []) tessen"

section \<open>The orchestrator: \<^verbatim>\<open>generateTessenDeclaration\<close> and \<^verbatim>\<open>generateLocalizationTypes\<close>\<close>

text \<open>The template literal of \<^verbatim>\<open>generateTessenDeclaration\<close>, with its two holes.\<close>

definition declaration_text :: "string \<Rightarrow> string \<Rightarrow> string" where
  "declaration_text clientSuffix interfaceContent =
     ''declare global {'' @ clientSuffix @ newline @
     ''  namespace Tessen {'' @ newline @
     ''    interface Localization {'' @ newline @
     interfaceContent @ newline @
     ''    }'' @ newline @
     ''  }'' @ newline @
     ''}'' @ newline @
     ''    '' @ newline @
     ''export { };''"

text \<open>\<^verbatim>\<open>clientIndex\<close> is \<open>None\<close> when it is \<^verbatim>\<open>undefined\<close>. The merged data is the object
  \<^verbatim>\<open>extractPlainLocaleDataFromTessen\<close> created, so it is always an object.\<close>

definition generateTessenDeclaration :: "Tessen \<Rightarrow> nat option \<Rightarrow> error + string" where
  "generateTessenDeclaration tessen clientIndex =
     (case extractPlainLocaleDataFromTessen tessen of
        Inl e \<Rightarrow> Inl e
      | Inr localeData \<Rightarrow>
          (let interfaceContent =
                 (case localeData of JObject ps \<Rightarrow> processLocaleData ps 0 | _ \<Rightarrow> []);
               clientSuffix =
                 (case clientIndex of
                    Some i \<Rightarrow> '' // Client '' @ string_of_nat (i + 1)
                  | None \<Rightarrow> [])
           in Inr (declaration_text clientSuffix interfaceContent)))"

text \<open>The \<^verbatim>\<open>for\<close> loop of \<^verbatim>\<open>generateLocalizationTypes\<close> with \<^verbatim>\<open>i\<close> and \<^verbatim>\<open>declarations\<close> as
  state.\<close>

function generate_loop :: "Tessen list \<Rightarrow> nat \<Rightarrow> string list \<Rightarrow> error + string list" where
  "generate_loop tessens i declarations =
     (if i < length tessens
      then (case generateTessenDeclaration (tessens ! i)
                   (if length tessens > 1 then Some i else None) of
              Inl e \<Rightarrow> Inl e
            | Inr declaration \<Rightarrow> generate_loop tessens (i + 1) (declarations @ [declaration]))
      else Inr declarations)"
  by pat_completeness auto
termination
  by (relation "measure (\<lambda>(tessens, i, declarations). length tessens - i)") auto

definition generateLocalizationTypes :: "Tessen list \<Rightarrow> error + string" where
  "generateLocalizationTypes tessens =
     (case generate_loop tessens 0 [] of
        Inl e \<Rightarrow> Inl e
      | Inr declarations \<Rightarrow> Inr (join (newline @ newline) declarations))"


section \<open>The program over an explicit store\<close>

text \<open>
  The functions above pass values, and stop where a call writes outside the value it
  returns. The program passes references. Here the store is the list of the objects
  allocated so far and a reference is the index of its object. The object at index \<open>0\<close> is
  \<^verbatim>\<open>Object.prototype\<close>; \<^verbatim>\<open>{}\<close> is a new object at the end of the store, with
  \<^verbatim>\<open>Object.prototype\<close> as its prototype.

  An object is its prototype (\<open>None\<close> is \<^verbatim>\<open>null\<close>) and its own properties, in the order of
  \<^verbatim>\<open>Object.entries\<close>. A property is an enumerable data property (\<open>Data\<close>), a data property
  that is not enumerable (\<open>Hidden\<close>: the functions \<^verbatim>\<open>Object.prototype\<close> has from the start),
  or the accessor \<^verbatim>\<open>__proto__\<close> of \<^verbatim>\<open>Object.prototype\<close>, the only accessor the program meets.
  Data properties are writable. Arrays are not modelled.
\<close>

datatype hval =
    HString string
  | HNumber int
  | HBoolean bool
  | HNull
  | HUndefined
  | HFunction
  | HRef nat

datatype hslot = Data hval | Hidden hval | Accessor

record hobject =
  prototype :: "nat option"
  slots :: "(string \<times> hslot) list"

type_synonym store = "hobject list"

fun typeof_h :: "hval \<Rightarrow> string" where
  "typeof_h (HString s) = ''string''"
| "typeof_h (HNumber n) = ''number''"
| "typeof_h (HBoolean b) = ''boolean''"
| "typeof_h HNull = ''object''"
| "typeof_h HUndefined = ''undefined''"
| "typeof_h HFunction = ''function''"
| "typeof_h (HRef a) = ''object''"

text \<open>\<^verbatim>\<open>Object.prototype\<close> before the program has written to it, and \<^verbatim>\<open>{}\<close>.\<close>

definition Object_prototype :: hobject where
  "Object_prototype =
     \<lparr>prototype = None,
      slots = map (\<lambda>k. (k, if k = ''__proto__'' then Accessor else Hidden HFunction))
                object_prototype_keys\<rparr>"

definition new_object :: hobject where
  "new_object = \<lparr>prototype = Some 0, slots = []\<rparr>"

text \<open>
  Property lookup. \<open>holder n h a k\<close> is the first object on the prototype chain of \<open>a\<close> that
  has an own property \<open>k\<close>, looking at no more than \<open>n\<close> objects; a chain has no cycle
  (the setter of \<^verbatim>\<open>__proto__\<close> refuses one), so the length of the store is enough.
  \<open>has_property_h\<close> is \<^verbatim>\<open>key in obj\<close>. \<open>get_h\<close> is \<^verbatim>\<open>obj[key]\<close>: the value of the data property
  found, or what the getter of \<^verbatim>\<open>__proto__\<close> returns, the prototype of the object the
  property is read on. \<open>entries_h\<close> is \<^verbatim>\<open>Object.entries(obj)\<close>: the own enumerable properties.
\<close>

fun holder :: "nat \<Rightarrow> store \<Rightarrow> nat \<Rightarrow> string \<Rightarrow> nat option" where
  "holder 0 h a k = None"
| "holder (Suc n) h a k =
     (if has_key (slots (h ! a)) k then Some a
      else (case prototype (h ! a) of
              None \<Rightarrow> None
            | Some p \<Rightarrow> holder n h p k))"

definition has_property_h :: "store \<Rightarrow> nat \<Rightarrow> string \<Rightarrow> bool" where
  "has_property_h h a k \<longleftrightarrow> holder (length h) h a k \<noteq> None"

definition get_h :: "store \<Rightarrow> nat \<Rightarrow> string \<Rightarrow> hval" where
  "get_h h a k =
     (case holder (length h) h a k of
        None \<Rightarrow> HUndefined
      | Some b \<Rightarrow>
          (case get_prop (slots (h ! b)) k of
             Some (Data v) \<Rightarrow> v
           | Some (Hidden v) \<Rightarrow> v
           | Some Accessor \<Rightarrow>
               (case prototype (h ! a) of
                  None \<Rightarrow> HNull
                | Some p \<Rightarrow> HRef p)
           | None \<Rightarrow> HUndefined))"

fun enumerable :: "(string \<times> hslot) list \<Rightarrow> (string \<times> hval) list" where
  "enumerable [] = []"
| "enumerable ((k, Data v) # ps) = (k, v) # enumerable ps"
| "enumerable ((k, s) # ps) = enumerable ps"

definition entries_h :: "store \<Rightarrow> nat \<Rightarrow> (string \<times> hval) list" where
  "entries_h h a = enumerable (slots (h ! a))"

text \<open>
  Assignment. \<open>set_prototype_h\<close> is the setter of \<^verbatim>\<open>__proto__\<close> called on the object \<open>a\<close>: it
  does nothing for a value that is neither an object nor \<^verbatim>\<open>null\<close>, and raises a
  \<^verbatim>\<open>TypeError\<close> when the new prototype would close a cycle or when \<open>a\<close> is
  \<^verbatim>\<open>Object.prototype\<close>, whose prototype cannot change. \<open>assign_h\<close> is \<^verbatim>\<open>obj[key] = value\<close>:
  an own data property takes the value and keeps its place; an inherited accessor runs its
  setter on \<open>obj\<close>; in every other case \<open>obj\<close> gets a new own enumerable property, placed
  as \<open>set_prop\<close> places it.
\<close>

fun in_chain :: "nat \<Rightarrow> store \<Rightarrow> nat \<Rightarrow> nat \<Rightarrow> bool" where
  "in_chain 0 h a b = False"
| "in_chain (Suc n) h a b =
     (a = b \<or> (case prototype (h ! b) of
                  None \<Rightarrow> False
                | Some p \<Rightarrow> in_chain n h a p))"

definition set_prototype_h :: "store \<Rightarrow> nat \<Rightarrow> hval \<Rightarrow> error + store" where
  "set_prototype_h h a v =
     (case v of
        HRef p \<Rightarrow>
          (if prototype (h ! a) = Some p then Inr h
           else if a = 0 \<or> in_chain (length h) h a p then Inl TypeError
           else Inr (h[a := (h ! a)\<lparr>prototype := Some p\<rparr>]))
      | HNull \<Rightarrow> Inr (h[a := (h ! a)\<lparr>prototype := None\<rparr>])
      | _ \<Rightarrow> Inr h)"

definition assign_h :: "store \<Rightarrow> nat \<Rightarrow> string \<Rightarrow> hval \<Rightarrow> error + store" where
  "assign_h h a k v =
     (case holder (length h) h a k of
        None \<Rightarrow> Inr (h[a := (h ! a)\<lparr>slots := set_prop (slots (h ! a)) k (Data v)\<rparr>])
      | Some b \<Rightarrow>
          (case get_prop (slots (h ! b)) k of
             Some Accessor \<Rightarrow> set_prototype_h h a v
           | Some (Hidden old) \<Rightarrow>
               Inr (h[a := (h ! a)\<lparr>slots := set_prop (slots (h ! a)) k
                                              (if b = a then Hidden v else Data v)\<rparr>])
           | _ \<Rightarrow> Inr (h[a := (h ! a)\<lparr>slots := set_prop (slots (h ! a)) k (Data v)\<rparr>])))"

text \<open>
  \<^verbatim>\<open>deepMerge\<close>, with what is left of \<^verbatim>\<open>Object.entries(source)\<close>, taken when the call starts,
  as last argument. A recursion that follows references has no structural bound, so the
  functions that recurse take fuel: each entry and each nested call uses one unit, and
  \<open>None\<close> says that the fuel ran out.
\<close>

fun deepMerge_h :: "nat \<Rightarrow> store \<Rightarrow> hval \<Rightarrow> (string \<times> hval) list \<Rightarrow> (error + store) option" where
  "deepMerge_h 0 h target entries = None"
| "deepMerge_h (Suc fuel) h target [] = Some (Inr h)"
| "deepMerge_h (Suc fuel) h target ((key, v) # rest) =
     (case target of
        HRef ta \<Rightarrow>
          (case v of
             HRef sa \<Rightarrow>
               (case (if \<not> has_property_h h ta key \<or> typeof_h (get_h h ta key) \<noteq> ''object''
                      then assign_h (h @ [new_object]) ta key (HRef (length h))
                      else Inr h) of
                  Inl e \<Rightarrow> Some (Inl e)
                | Inr h1 \<Rightarrow>
                    (case deepMerge_h fuel h1 (get_h h1 ta key) (entries_h h1 sa) of
                       None \<Rightarrow> None
                     | Some (Inl e) \<Rightarrow> Some (Inl e)
                     | Some (Inr h2) \<Rightarrow> deepMerge_h fuel h2 target rest))
           | _ \<Rightarrow>
               (case assign_h h ta key v of
                  Inl e \<Rightarrow> Some (Inl e)
                | Inr h1 \<Rightarrow> deepMerge_h fuel h1 target rest))
      | _ \<Rightarrow> Some (Inl TypeError))"

text \<open>\<^verbatim>\<open>processLocaleData\<close>, reading the object at the address \<open>data\<close>.\<close>

fun process_entries_h ::
    "nat \<Rightarrow> store \<Rightarrow> nat \<Rightarrow> string list \<Rightarrow> (string \<times> hval) list \<Rightarrow> string list option" where
  "process_entries_h 0 h depth lines entries = None"
| "process_entries_h (Suc fuel) h depth lines [] = Some lines"
| "process_entries_h (Suc fuel) h depth lines ((key, v) # rest) =
     (let indent = repeat ''  '' (depth + 3) in
      case v of
        HString s \<Rightarrow>
          (let signature = generateFunctionSignature s in
           process_entries_h fuel h depth (lines @ [indent @ key @ '': '' @ signature @ '';''])
             rest)
      | HRef a \<Rightarrow>
          (case process_entries_h fuel h (depth + 1) [] (entries_h h a) of
             None \<Rightarrow> None
           | Some sub \<Rightarrow>
               process_entries_h fuel h depth
                 (lines @ [indent @ key @ '': {'', join newline sub, indent @ ''};''])
                 rest)
      | _ \<Rightarrow> process_entries_h fuel h depth lines rest)"

definition processLocaleData_h :: "nat \<Rightarrow> store \<Rightarrow> nat \<Rightarrow> nat \<Rightarrow> string option" where
  "processLocaleData_h fuel h data depth =
     (case process_entries_h fuel h depth [] (entries_h h data) of
        None \<Rightarrow> None
      | Some lines \<Rightarrow> Some (join newline lines))"

text \<open>
  The normaliser and the orchestrator, as in the value-level model. A content value of
  the fallback is read, not written, and stays a value; what is extracted from it is
  allocated. The \<^verbatim>\<open>data\<close> of an entry of \<^verbatim>\<open>rawContents\<close> is the address of an object of the
  store. The properties the program reads by name on a \<^verbatim>\<open>Tessen\<close> instance are own
  properties of their objects, so reading them does not reach \<^verbatim>\<open>Object.prototype\<close>.
\<close>

fun extractPlainDataFromContentValue_h :: "store \<Rightarrow> ContentValue \<Rightarrow> error + store \<times> hval"
  and extract_object_h :: "store \<Rightarrow> nat \<Rightarrow> (string \<times> ContentValue) list \<Rightarrow> error + store" where
  "extractPlainDataFromContentValue_h h (CString s) = Inr (h, HString s)"
| "extractPlainDataFromContentValue_h h (CFunction paramCount) =
     Inr (h, HString (extractParametersFromFunction paramCount))"
| "extractPlainDataFromContentValue_h h (CObject entries) =
     (case extract_object_h (h @ [new_object]) (length h) entries of
        Inl e \<Rightarrow> Inl e
      | Inr h1 \<Rightarrow> Inr (h1, HRef (length h)))"
| "extractPlainDataFromContentValue_h h COther = Inr (h, HString [])"
| "extract_object_h h result [] = Inr h"
| "extract_object_h h result ((key, subValue) # rest) =
     (if key = ''length'' \<or> key = ''name'' \<or> key = ''prototype''
      then extract_object_h h result rest
      else (case extractPlainDataFromContentValue_h h subValue of
              Inl e \<Rightarrow> Inl e
            | Inr (h1, extracted) \<Rightarrow>
                (case assign_h h1 result key extracted of
                   Inl e \<Rightarrow> Inl e
                 | Inr h2 \<Rightarrow> extract_object_h h2 result rest)))"

datatype Locale_h =
    RawContents_h "nat option list"
  | ContentOnly_h "ContentValue list"

type_synonym Tessen_h = "Locale_h list"

fun merge_contents_h :: "nat \<Rightarrow> store \<Rightarrow> hval \<Rightarrow> nat option list \<Rightarrow> (error + store) option" where
  "merge_contents_h fuel h mergedData [] = Some (Inr h)"
| "merge_contents_h fuel h mergedData (None # rest) = merge_contents_h fuel h mergedData rest"
| "merge_contents_h fuel h mergedData (Some d # rest) =
     (case deepMerge_h fuel h mergedData (entries_h h d) of
        None \<Rightarrow> None
      | Some (Inl e) \<Rightarrow> Some (Inl e)
      | Some (Inr h1) \<Rightarrow> merge_contents_h fuel h1 mergedData rest)"

fun merge_fallback_h :: "nat \<Rightarrow> store \<Rightarrow> hval \<Rightarrow> ContentValue list \<Rightarrow> (error + store) option" where
  "merge_fallback_h fuel h mergedData [] = Some (Inr h)"
| "merge_fallback_h fuel h mergedData (contentValue # rest) =
     (case extractPlainDataFromContentValue_h h contentValue of
        Inl e \<Rightarrow> Some (Inl e)
      | Inr (h1, plainData) \<Rightarrow>
          (case plainData of
             HRef p \<Rightarrow> deepMerge_h fuel h1 mergedData (entries_h h1 p)
           | _ \<Rightarrow> Some (Inr h1)))"

fun merge_locales_h :: "nat \<Rightarrow> store \<Rightarrow> hval \<Rightarrow> Locale_h list \<Rightarrow> (error + store) option" where
  "merge_locales_h fuel h mergedData [] = Some (Inr h)"
| "merge_locales_h fuel h mergedData (RawContents_h rawContents # rest) =
     (case merge_contents_h fuel h mergedData rawContents of
        None \<Rightarrow> None
      | Some (Inl e) \<Rightarrow> Some (Inl e)
      | Some (Inr h1) \<Rightarrow> merge_locales_h fuel h1 mergedData rest)"
| "merge_locales_h fuel h mergedData (ContentOnly_h content # rest) =
     (case merge_fallback_h fuel h mergedData content of
        None \<Rightarrow> None
      | Some (Inl e) \<Rightarrow> Some (Inl e)
      | Some (Inr h1) \<Rightarrow> merge_locales_h fuel h1 mergedData rest)"

definition extractPlainLocaleDataFromTessen_h ::
    "nat \<Rightarrow> store \<Rightarrow> Tessen_h \<Rightarrow> (error + store \<times> nat) option" where
  "extractPlainLocaleDataFromTessen_h fuel h tessen =
     (case merge_locales_h fuel (h @ [new_object]) (HRef (length h)) tessen of
        None \<Rightarrow> None
      | Some (Inl e) \<Rightarrow> Some (Inl e)
      | Some (Inr h1) \<Rightarrow> Some (Inr (h1, length h)))"

definition generateTessenDeclaration_h ::
    "nat \<Rightarrow> store \<Rightarrow> Tessen_h \<Rightarrow> nat option \<Rightarrow> (error + store \<times> string) option" where
  "generateTessenDeclaration_h fuel h tessen clientIndex =
     (case extractPlainLocaleDataFromTessen_h fuel h tessen of
        None \<Rightarrow> None
      | Some (Inl e) \<Rightarrow> Some (Inl e)
      | Some (Inr (h1, localeData)) \<Rightarrow>
          (case processLocaleData_h fuel h1 localeData 0 of
             None \<Rightarrow> None
           | Some interfaceContent \<Rightarrow>
               (let clientSuffix =
                      (case clientIndex of
                         Some i \<Rightarrow> '' // Client '' @ string_of_nat (i + 1)
                       | None \<Rightarrow> [])
                in Some (Inr (h1, declaration_text clientSuffix interfaceContent)))))"

function generate_loop_h ::
    "nat \<Rightarrow> store \<Rightarrow> Tessen_h list \<Rightarrow> nat \<Rightarrow> string list \<Rightarrow> (error + store \<times> string list) option" where
  "generate_loop_h fuel h tessens i declarations =
     (if i < length tessens
      then (case generateTessenDeclaration_h fuel h (tessens ! i)
                   (if length tessens > 1 then Some i else None) of
              None \<Rightarrow> None
            | Some (Inl e) \<Rightarrow> Some (Inl e)
            | Some (Inr (h1, declaration)) \<Rightarrow>
                generate_loop_h fuel h1 tessens (i + 1) (declarations @ [declaration]))
      else Some (Inr (h, declarations)))"
  by pat_completeness auto
termination
  by (relation "measure (\<lambda>(fuel, h, tessens, i, declarations). length tessens - i)") auto

definition generateLocalizationTypes_h ::
    "nat \<Rightarrow> store \<Rightarrow> Tessen_h list \<Rightarrow> (error + store \<times> string) option" where
  "generateLocalizationTypes_h fuel h tessens =
     (case generate_loop_h fuel h tessens 0 [] of
        None \<Rightarrow> None
      | Some (Inl e) \<Rightarrow> Some (Inl e)
      | Some (Inr (h1, declarations)) \<Rightarrow> Some (Inr (h1, join (newline @ newline) declarations)))"

section \<open>Notions used in the statements\<close>

text \<open>The names of the successive matches of the pattern in a template, left to right, each
  match starting where the previous one ended.\<close>

function placeholder_names :: "string \<Rightarrow> string list" where
  "placeholder_names v =
     (case paramRegex_exec v of
        None \<Rightarrow> []
      | Some (index, label, rest) \<Rightarrow> paramName_of index label # placeholder_names rest)"
  by pat_completeness auto
termination
  by (relation "measure length") (auto dest: paramRegex_exec_shorter)

text \<open>A list without its repetitions: every element stays where it stands first.\<close>

primrec first_seen :: "'a list \<Rightarrow> 'a list" where
  "first_seen [] = []"
| "first_seen (x # xs) = x # filter (\<lambda>y. y \<noteq> x) (first_seen xs)"

definition string_param :: "string \<Rightarrow> ExtractedParameter" where
  "string_param n = \<lparr>name = n, type = ''string''\<rparr>"

text \<open>The keys of an object, in the order of its properties: \<^verbatim>\<open>Object.keys\<close>.\<close>

definition own_keys :: "(string \<times> 'v) list \<Rightarrow> string list" where
  "own_keys obj = map fst obj"

text \<open>A Shape Node: a template string (a Leaf), or an object whose values are Shape Nodes (a
  Branch).\<close>

fun shape_node :: "jsval \<Rightarrow> bool" where
  "shape_node (JString s) = True"
| "shape_node (JObject ps) = list_all shape_node (map snd ps)"
| "shape_node v = False"

text \<open>What \<^verbatim>\<open>deepMerge\<close> recurses into at a key whose incoming value is an object, when an
  assignment at that key goes to an own property of the target: the value the target has
  there when \<^verbatim>\<open>typeof\<close> says \<^verbatim>\<open>'object'\<close> of it (an object, or \<^verbatim>\<open>null\<close>), and a new empty
  object otherwise.\<close>

definition merge_base :: "PlainLocaleData \<Rightarrow> string \<Rightarrow> jsval" where
  "merge_base t k =
     (case get_prop t k of
        Some (JObject old) \<Rightarrow> JObject old
      | Some JNull \<Rightarrow> JNull
      | _ \<Rightarrow> JObject [])"

text \<open>The keys of an object after an assignment to the property \<open>k\<close>, from its keys
  before: what \<open>set_prop\<close> does to the keys.\<close>

fun insert_key :: "string list \<Rightarrow> string \<Rightarrow> string list" where
  "insert_key [] k = [k]"
| "insert_key (k' # ks) k =
     (if is_array_index k' \<and> digits_value k' < digits_value k
      then k' # insert_key ks k
      else k # k' # ks)"

definition add_key :: "string list \<Rightarrow> string \<Rightarrow> string list" where
  "add_key ks k =
     (if k \<in> set ks then ks
      else if is_array_index k then insert_key ks k
      else ks @ [k])"

text \<open>The order in which an object keeps its keys: every key that is an array index stands
  before every key that is not, and the array indices ascend.\<close>

fun own_order :: "string list \<Rightarrow> bool" where
  "own_order [] = True"
| "own_order (k # ks) =
     (own_order ks \<and>
      (if is_array_index k
       then list_all (\<lambda>k'. \<not> is_array_index k' \<or> digits_value k \<le> digits_value k') ks
       else list_all (\<lambda>k'. \<not> is_array_index k') ks))"

text \<open>The keys a source has under the Branch at the key \<open>k\<close> of its root.\<close>

definition keys_under :: "string \<Rightarrow> PlainLocaleData \<Rightarrow> string list" where
  "keys_under k s = (case get_prop s k of Some (JObject c) \<Rightarrow> own_keys c | _ \<Rightarrow> [])"

text \<open>The lines one entry of a mapping adds to the rendering of the mapping at a depth.\<close>

definition entry_lines :: "nat \<Rightarrow> string \<times> jsval \<Rightarrow> string list" where
  "entry_lines depth e =
     (case e of (key, v) \<Rightarrow>
        (case v of
           JString s \<Rightarrow>
             [repeat ''  '' (depth + 3) @ key @ '': '' @ generateFunctionSignature s @ '';'']
         | JObject children \<Rightarrow>
             [repeat ''  '' (depth + 3) @ key @ '': {'',
              processLocaleData children (depth + 1),
              repeat ''  '' (depth + 3) @ ''};'']
         | _ \<Rightarrow> []))"

text \<open>The annotation of a block: \<^verbatim>\<open>clientSuffix\<close> as a function of \<^verbatim>\<open>clientIndex\<close>.\<close>

definition client_suffix :: "nat option \<Rightarrow> string" where
  "client_suffix clientIndex =
     (case clientIndex of Some i \<Rightarrow> '' // Client '' @ string_of_nat (i + 1) | None \<Rightarrow> [])"

section \<open>Lists without repetitions\<close>

lemma set_first_seen [simp]: "set (first_seen xs) = set xs"
  by (induction xs) auto

lemma distinct_first_seen [simp]: "distinct (first_seen xs)"
  by (induction xs) auto

lemma first_seen_append:
  "first_seen (xs @ ys) = first_seen xs @ filter (\<lambda>y. y \<notin> set xs) (first_seen ys)"
  by (induction xs) (auto simp: conj_commute)

lemma first_seen_distinct: "distinct xs \<Longrightarrow> first_seen xs = xs"
  by (induction xs) (auto simp: filter_id_conv)

lemma first_seen_snoc:
  "first_seen (xs @ [x]) = (if x \<in> set xs then first_seen xs else first_seen xs @ [x])"
  by (simp add: first_seen_append)

section \<open>The parser's loop\<close>

declare extract_loop.simps [simp del]
declare placeholder_names.simps [simp del]

text \<open>The invariant of the loop: \<open>seen\<close> holds the names of \<open>parameters\<close>, which are distinct;
  what the rest of the template adds are its names that are new, each once.\<close>

lemma extract_loop_invariant:
  "distinct ns \<Longrightarrow>
   extract_loop v (set ns) (map string_param ns) =
   map string_param (ns @ filter (\<lambda>n. n \<notin> set ns) (first_seen (placeholder_names v)))"
proof (induction v "set ns" "map string_param ns" arbitrary: ns rule: extract_loop.induct)
  case (1 v)
  show ?case
  proof (cases "paramRegex_exec v")
    case None
    then show ?thesis
      by (simp add: extract_loop.simps[of v] placeholder_names.simps[of v])
  next
    case (Some m)
    obtain index label rest where m: "m = (index, label, rest)" by (cases m)
    let ?n = "paramName_of index label"
    let ?fs = "first_seen (placeholder_names rest)"
    have pn: "placeholder_names v = ?n # placeholder_names rest"
      using Some m by (simp add: placeholder_names.simps[of v])
    show ?thesis
    proof (cases "?n \<in> set ns")
      case True
      have "extract_loop rest (set ns) (map string_param ns) =
            map string_param (ns @ filter (\<lambda>n. n \<notin> set ns) ?fs)"
        using 1(2)[OF Some m[symmetric] refl refl _ refl refl 1(3)] True by simp
      moreover have "filter (\<lambda>n. n \<notin> set ns) (filter (\<lambda>y. y \<noteq> ?n) ?fs)
                     = filter (\<lambda>n. n \<notin> set ns) ?fs"
        using True by (auto intro: filter_cong)
      ultimately show ?thesis
        using Some m True pn by (simp add: extract_loop.simps[of v] Let_def)
    next
      case False
      have d: "distinct (ns @ [?n])" using False 1(3) by simp
      have "extract_loop rest (set (ns @ [?n])) (map string_param (ns @ [?n])) =
            map string_param ((ns @ [?n]) @ filter (\<lambda>n. n \<notin> set (ns @ [?n])) ?fs)"
        using 1(1)[OF Some m[symmetric] refl refl _ _ _ d] False
        by (simp add: string_param_def)
      moreover have "filter (\<lambda>n. n \<notin> set (ns @ [?n])) ?fs
                     = filter (\<lambda>n. n \<notin> set ns) (filter (\<lambda>y. y \<noteq> ?n) ?fs)"
        by (auto intro: filter_cong)
      ultimately show ?thesis
        using Some m False pn by (simp add: extract_loop.simps[of v] string_param_def Let_def)
    qed
  qed
qed

lemma extractParameters_names:
  "extractParameters v = map string_param (first_seen (placeholder_names v))"
  using extract_loop_invariant[of "[]" v] by (simp add: extractParameters_def)

section \<open>The pattern\<close>

lemma takeWhile_stop: "list_all P ys \<Longrightarrow> \<not> P z \<Longrightarrow> takeWhile P (ys @ z # zs) = ys"
  by (induction ys) auto

lemma dropWhile_stop: "list_all P ys \<Longrightarrow> \<not> P z \<Longrightarrow> dropWhile P (ys @ z # zs) = z # zs"
  by (induction ys) auto

lemma list_all_takeWhile: "list_all P (takeWhile P xs)"
  by (induction xs) auto

lemma split_at_dropWhile: "dropWhile P xs = z # zs \<Longrightarrow> xs = takeWhile P xs @ z # zs"
  by (metis takeWhile_dropWhile_id)

lemma dropWhile_head: "dropWhile P xs = z # zs \<Longrightarrow> \<not> P z"
  by (metis hd_dropWhile list.distinct(1) list.sel(1))

lemma paramRegex_match_plain:
  "paramRegex_match s = Some (ds, None, r) \<longleftrightarrow>
     ds \<noteq> [] \<and> list_all is_digit ds \<and> s = ''{'' @ ds @ ''}'' @ r"
proof
  assume a: "paramRegex_match s = Some (ds, None, r)"
  then obtain t where s: "s = CHR ''{'' # t"
    by (auto simp: paramRegex_match_def split: list.splits if_splits)
  from a s have ds: "ds = takeWhile is_digit t" "ds \<noteq> []"
    and d: "dropWhile is_digit t = CHR ''}'' # r"
    by (auto simp: paramRegex_match_def Let_def split: list.splits if_splits)
  from split_at_dropWhile[OF d] ds s show
    "ds \<noteq> [] \<and> list_all is_digit ds \<and> s = ''{'' @ ds @ ''}'' @ r"
    by (simp add: list_all_takeWhile)
next
  assume "ds \<noteq> [] \<and> list_all is_digit ds \<and> s = ''{'' @ ds @ ''}'' @ r"
  then have ne: "ds \<noteq> []" and dg: "list_all is_digit ds"
    and s: "s = CHR ''{'' # (ds @ CHR ''}'' # r)"
    by simp_all
  have nd: "\<not> is_digit CHR ''}''" by (simp add: is_digit_def)
  show "paramRegex_match s = Some (ds, None, r)"
    using ne by (simp add: s paramRegex_match_def takeWhile_stop[OF dg nd] dropWhile_stop[OF dg nd])
qed

lemma paramRegex_match_labelled:
  "paramRegex_match s = Some (ds, Some l, r) \<longleftrightarrow>
     ds \<noteq> [] \<and> list_all is_digit ds \<and> l \<noteq> [] \<and> list_all (\<lambda>x. x \<noteq> CHR ''}'') l
     \<and> s = ''{'' @ ds @ '':'' @ l @ ''}'' @ r"
proof
  assume a: "paramRegex_match s = Some (ds, Some l, r)"
  then obtain t where s: "s = CHR ''{'' # t"
    by (auto simp: paramRegex_match_def split: list.splits if_splits)
  from a s obtain u where ds: "ds = takeWhile is_digit t" "ds \<noteq> []"
    and d: "dropWhile is_digit t = CHR '':'' # u"
    and l: "l = takeWhile (\<lambda>x. x \<noteq> CHR ''}'') u" "l \<noteq> []"
    and e: "dropWhile (\<lambda>x. x \<noteq> CHR ''}'') u = CHR ''}'' # r"
    by (auto simp: paramRegex_match_def Let_def split: list.splits if_splits dest: dropWhile_head)
  from split_at_dropWhile[OF d] split_at_dropWhile[OF e] ds l s show
    "ds \<noteq> [] \<and> list_all is_digit ds \<and> l \<noteq> [] \<and> list_all (\<lambda>x. x \<noteq> CHR ''}'') l
     \<and> s = ''{'' @ ds @ '':'' @ l @ ''}'' @ r"
    by (simp add: list_all_takeWhile)
next
  assume "ds \<noteq> [] \<and> list_all is_digit ds \<and> l \<noteq> [] \<and> list_all (\<lambda>x. x \<noteq> CHR ''}'') l
     \<and> s = ''{'' @ ds @ '':'' @ l @ ''}'' @ r"
  then have ne: "ds \<noteq> []" and dg: "list_all is_digit ds" and ln: "l \<noteq> []"
    and lg: "list_all (\<lambda>x. x \<noteq> CHR ''}'') l"
    and s: "s = CHR ''{'' # (ds @ CHR '':'' # (l @ CHR ''}'' # r))"
    by simp_all
  have nd: "\<not> is_digit CHR '':''" by (simp add: is_digit_def)
  have nb: "\<not> (\<lambda>x. x \<noteq> CHR ''}'') CHR ''}''" by simp
  show "paramRegex_match s = Some (ds, Some l, r)"
    using ne ln
    by (simp add: s paramRegex_match_def takeWhile_stop[OF dg nd] dropWhile_stop[OF dg nd]
        takeWhile_stop[OF lg nb] dropWhile_stop[OF lg nb])
qed

lemma paramRegex_exec_leftmost:
  "paramRegex_exec s =
     Option.bind (find (\<lambda>t. paramRegex_match t \<noteq> None) (map (\<lambda>i. drop i s) [0..<length s]))
       paramRegex_match"
proof (induction s)
  case Nil
  then show ?case by simp
next
  case (Cons c cs)
  have "map (\<lambda>i. drop i (c # cs)) [0..<length (c # cs)]
        = (c # cs) # map (\<lambda>i. drop i cs) [0..<length cs]"
    by (simp add: upt_conv_Cons map_Suc_upt[symmetric] del: upt_Suc)
  with Cons show ?case
    by (auto split: option.splits)
qed

lemma paramRegex_exec_no_close: "CHR ''}'' \<notin> set s \<Longrightarrow> paramRegex_exec s = None"
proof (induction s)
  case Nil
  then show ?case by simp
next
  case (Cons c cs)
  have "paramRegex_match (c # cs) = None"
  proof (cases "paramRegex_match (c # cs)")
    case None
    then show ?thesis .
  next
    case (Some m)
    obtain ds l r where "m = (ds, l, r)" by (cases m)
    with Some Cons.prems show ?thesis
      by (cases l) (auto simp: paramRegex_match_plain paramRegex_match_labelled)
  qed
  with Cons show ?case by simp
qed

section \<open>Properties of objects\<close>

lemma own_keys_simps [simp]:
  "own_keys [] = []" "own_keys ((k, v) # ps) = k # own_keys ps"
  "own_keys (ps @ qs) = own_keys ps @ own_keys qs"
  by (simp_all add: own_keys_def)

lemma has_key_own_keys: "has_key obj k \<longleftrightarrow> k \<in> set (own_keys obj)"
  by (simp add: has_key_def own_keys_def)

lemma own_keys_replace [simp]: "own_keys (replace_prop obj k v) = own_keys obj"
  by (induction obj k v rule: replace_prop.induct) auto

lemma set_own_keys_insert_index [simp]:
  "set (own_keys (insert_index obj k v)) = insert k (set (own_keys obj))"
  by (induction obj k v rule: insert_index.induct) auto

lemma set_own_keys_set_prop [simp]:
  "set (own_keys (set_prop obj k v)) = insert k (set (own_keys obj))"
  by (auto simp: set_prop_def has_key_own_keys)

lemma has_key_set_prop [simp]: "has_key (set_prop obj k v) k' \<longleftrightarrow> k' = k \<or> has_key obj k'"
  by (auto simp add: has_key_own_keys)

lemma get_prop_simps [simp]:
  "get_prop [] k = None" "get_prop ((k', v) # ps) k = (if k = k' then Some v else get_prop ps k)"
  by (simp_all add: get_prop_def)

lemma has_key_get_prop: "has_key obj k \<longleftrightarrow> get_prop obj k \<noteq> None"
  by (induction obj) (auto simp: has_key_own_keys)

lemma get_prop_replace:
  "get_prop (replace_prop obj k v) k' =
     (if k' = k \<and> has_key obj k then Some v else get_prop obj k')"
  by (induction obj k v rule: replace_prop.induct) (auto simp: has_key_own_keys)

lemma get_prop_insert_index:
  "\<not> has_key obj k \<Longrightarrow>
   get_prop (insert_index obj k v) k' = (if k' = k then Some v else get_prop obj k')"
  by (induction obj k v rule: insert_index.induct) (auto simp: has_key_own_keys)

lemma get_prop_append:
  "\<not> has_key obj k \<Longrightarrow>
   get_prop (obj @ [(k, v)]) k' = (if k' = k then Some v else get_prop obj k')"
  by (induction obj) (auto simp: has_key_own_keys)

lemma get_prop_set_prop [simp]:
  "get_prop (set_prop obj k v) k' = (if k' = k then Some v else get_prop obj k')"
  by (simp add: set_prop_def get_prop_replace get_prop_insert_index get_prop_append)


lemma replace_prop_twice [simp]:
  "replace_prop (replace_prop obj k a) k b = replace_prop obj k b"
  by (induction obj k a rule: replace_prop.induct) auto

lemma replace_prop_insert_index:
  "\<not> has_key obj k \<Longrightarrow> replace_prop (insert_index obj k a) k b = insert_index obj k b"
  by (induction obj k a rule: insert_index.induct) (auto simp: has_key_own_keys)

lemma replace_prop_append:
  "\<not> has_key obj k \<Longrightarrow> replace_prop (obj @ [(k, a)]) k b = obj @ [(k, b)]"
  by (induction obj) (auto simp: has_key_own_keys)

lemma set_prop_twice [simp]: "set_prop (set_prop obj k a) k b = set_prop obj k b"
proof -
  have "set_prop (set_prop obj k a) k b = replace_prop (set_prop obj k a) k b"
    by (simp add: set_prop_def[of "set_prop obj k a"])
  then show ?thesis
    by (simp add: set_prop_def[of obj] replace_prop_insert_index replace_prop_append)
qed

lemma assigns_own_other: "k \<noteq> ''__proto__'' \<Longrightarrow> assigns_own t k"
  by (simp add: assigns_own_def)

lemma read_prop_set_prop [simp]: "read_prop (set_prop t k v) k = Value v"
  by (simp add: read_prop_def)

lemma read_prop_absent:
  "get_prop t k = None \<Longrightarrow> k \<noteq> ''__proto__'' \<Longrightarrow> typeof_property (read_prop t k) \<noteq> ''object''"
  by (simp add: read_prop_def)

lemma read_prop_inherited:
  "\<not> assigns_own t k \<Longrightarrow> key_in t k \<and> read_prop t k = ObjectPrototype"
  by (auto simp: assigns_own_def key_in_def object_prototype_keys_def read_prop_def
      has_key_get_prop)

lemma deepMerge_leaf:
  "(\<And>src. v \<noteq> JObject src) \<Longrightarrow> assigns_own t k \<Longrightarrow>
   deepMerge (JObject t) ((k, v) # rest) = deepMerge (JObject (set_prop t k v)) rest"
  by (cases v) auto

lemma deepMerge_branch:
  assumes "assigns_own t k"
  shows "deepMerge (JObject t) ((k, JObject src) # rest) =
     (case deepMerge (merge_base t k) src of
        Inl e \<Rightarrow> Inl e
      | Inr sub' \<Rightarrow> deepMerge (JObject (set_prop t k sub')) rest)"
proof (cases "get_prop t k")
  case None
  then have "k \<noteq> ''__proto__''"
    using assms by (simp add: assigns_own_def has_key_get_prop)
  with None have "typeof_property (read_prop t k) \<noteq> ''object''"
    by (rule read_prop_absent)
  with None show ?thesis
    by (simp add: merge_base_def split: sum.splits)
next
  case (Some old)
  then have r: "read_prop t k = Value old" "key_in t k"
    by (simp_all add: read_prop_def key_in_def has_key_get_prop)
  from Some show ?thesis
    by (cases old) (simp_all add: r merge_base_def split: sum.splits)
qed

text \<open>The key \<^verbatim>\<open>__proto__\<close> on a target without an own property of that name.\<close>

lemma deepMerge_proto_leaf:
  "(\<And>src. v \<noteq> JObject src) \<Longrightarrow> \<not> assigns_own t k \<Longrightarrow>
   deepMerge (JObject t) ((k, v) # rest) =
     (if v = JNull then Inl PrototypeMutation else deepMerge (JObject t) rest)"
  by (cases v) auto

lemma deepMerge_proto_branch:
  "\<not> assigns_own t k \<Longrightarrow>
   deepMerge (JObject t) ((k, JObject src) # rest) =
     (case deepMerge_Object_prototype src of
        Inl e \<Rightarrow> Inl e
      | Inr u \<Rightarrow> deepMerge (JObject t) rest)"
  using read_prop_inherited[of t k] by simp

lemma deepMerge_not_object:
  "(\<And>t. target \<noteq> JObject t) \<Longrightarrow> deepMerge target s = (if s = [] then Inr target else Inl TypeError)"
  by (cases s; cases target) auto

declare deepMerge.simps(2) [simp del]

lemmas merge_eval = assigns_own_def key_in_def read_prop_def object_prototype_keys_def

section \<open>One merge, key by key\<close>

lemma deepMerge_object_result:
  "deepMerge (JObject t) s = Inr r \<Longrightarrow> \<exists>r'. r = JObject r'"
proof (induction s arbitrary: t)
  case Nil
  then show ?case by auto
next
  case (Cons e rest)
  obtain k v where e: "e = (k, v)" by (cases e)
  show ?case
  proof (cases "\<exists>src. v = JObject src")
    case False
    then have leaf: "\<And>src. v \<noteq> JObject src" by blast
    show ?thesis
    proof (cases "assigns_own t k")
      case True
      with Cons e leaf show ?thesis by (simp add: deepMerge_leaf)
    next
      case False
      with Cons e leaf show ?thesis
        by (cases "v = JNull") (simp_all add: deepMerge_proto_leaf)
    qed
  next
    case True
    then obtain src where v: "v = JObject src" by blast
    show ?thesis
    proof (cases "assigns_own t k")
      case True
      with Cons e v show ?thesis
        by (auto simp: deepMerge_branch split: sum.splits)
    next
      case False
      with Cons e v show ?thesis
        by (auto simp: deepMerge_proto_branch split: sum.splits)
    qed
  qed
qed

lemma own_keys_insert_index: "own_keys (insert_index obj k v) = insert_key (own_keys obj) k"
  by (induction obj k v rule: insert_index.induct) auto

lemma own_keys_set_prop: "own_keys (set_prop obj k v) = add_key (own_keys obj) k"
  by (simp add: set_prop_def add_key_def has_key_own_keys own_keys_insert_index)

lemma set_insert_key [simp]: "set (insert_key ks k) = insert k (set ks)"
  by (induction ks) auto

lemma set_add_key [simp]: "set (add_key ks k) = insert k (set ks)"
  by (auto simp: add_key_def)

lemma distinct_insert_key: "distinct ks \<Longrightarrow> k \<notin> set ks \<Longrightarrow> distinct (insert_key ks k)"
  by (induction ks) auto

lemma distinct_add_key: "distinct ks \<Longrightarrow> distinct (add_key ks k)"
  by (simp add: add_key_def distinct_insert_key)

lemma named_insert_key:
  "is_array_index k \<Longrightarrow>
   filter (\<lambda>x. \<not> is_array_index x) (insert_key ks k) = filter (\<lambda>x. \<not> is_array_index x) ks"
  by (induction ks) auto

lemma named_add_key:
  "filter (\<lambda>x. \<not> is_array_index x) (add_key ks k) =
     filter (\<lambda>x. \<not> is_array_index x) ks @ (if k \<in> set ks \<or> is_array_index k then [] else [k])"
  by (simp add: add_key_def named_insert_key)

lemma own_order_insert_key:
  "own_order ks \<Longrightarrow> is_array_index k \<Longrightarrow> own_order (insert_key ks k)"
proof (induction ks)
  case Nil
  then show ?case by simp
next
  case (Cons a ks)
  show ?case
  proof (cases "is_array_index a \<and> digits_value a < digits_value k")
    case True
    with Cons show ?thesis by (auto simp: list_all_iff)
  next
    case False
    show ?thesis
    proof (cases "is_array_index a")
      case True
      with False have le: "digits_value k \<le> digits_value a" by simp
      have "\<forall>k'\<in>set ks. is_array_index k' \<longrightarrow> digits_value a \<le> digits_value k'"
        using Cons.prems(1) True by (auto simp: list_all_iff)
      with le have "\<forall>k'\<in>set ks. is_array_index k' \<longrightarrow> digits_value k \<le> digits_value k'"
        by fastforce
      with Cons.prems True le show ?thesis by (auto simp: list_all_iff)
    next
      case na: False
      with Cons.prems show ?thesis by (auto simp: list_all_iff)
    qed
  qed
qed

lemma own_order_snoc:
  "own_order ks \<Longrightarrow> \<not> is_array_index k \<Longrightarrow> own_order (ks @ [k])"
  by (induction ks) (auto simp: list_all_iff)

lemma own_order_add_key: "own_order ks \<Longrightarrow> own_order (add_key ks k)"
  by (simp add: add_key_def own_order_insert_key own_order_snoc)

lemma own_order_split:
  "own_order ks \<Longrightarrow>
   ks = filter is_array_index ks @ filter (\<lambda>x. \<not> is_array_index x) ks
   \<and> sorted (map digits_value (filter is_array_index ks))"
proof (induction ks)
  case Nil
  then show ?case by simp
next
  case (Cons k ks)
  then have ih: "ks = filter is_array_index ks @ filter (\<lambda>x. \<not> is_array_index x) ks"
    "sorted (map digits_value (filter is_array_index ks))"
    by simp_all
  show ?case
  proof (cases "is_array_index k")
    case True
    with Cons.prems ih show ?thesis by (auto simp: list_all_iff)
  next
    case False
    with Cons.prems have "filter is_array_index ks = []"
      by (auto simp: list_all_iff filter_empty_conv)
    with False ih show ?thesis by simp
  qed
qed

lemma foldl_add_key_set [simp]: "set (foldl add_key ks xs) = set ks \<union> set xs"
  by (induction xs arbitrary: ks) auto

lemma foldl_add_key_distinct: "distinct ks \<Longrightarrow> distinct (foldl add_key ks xs)"
  by (induction xs arbitrary: ks) (simp_all add: distinct_add_key)

lemma foldl_add_key_own_order: "own_order ks \<Longrightarrow> own_order (foldl add_key ks xs)"
  by (induction xs arbitrary: ks) (auto simp: own_order_add_key)

lemma foldl_add_key_named:
  "filter (\<lambda>x. \<not> is_array_index x) (foldl add_key ks xs) =
     filter (\<lambda>x. \<not> is_array_index x) ks
     @ filter (\<lambda>x. x \<notin> set ks) (first_seen (filter (\<lambda>x. \<not> is_array_index x) xs))"
proof (induction xs arbitrary: ks)
  case Nil
  then show ?case by simp
next
  case (Cons k xs)
  define fs where "fs = first_seen (filter (\<lambda>x. \<not> is_array_index x) xs)"
  have named: "\<And>y. y \<in> set fs \<Longrightarrow> \<not> is_array_index y"
    by (simp add: fs_def)
  have step: "filter (\<lambda>x. \<not> is_array_index x) (foldl add_key ks (k # xs)) =
      (filter (\<lambda>x. \<not> is_array_index x) ks @ (if k \<in> set ks \<or> is_array_index k then [] else [k]))
      @ filter (\<lambda>x. x \<notin> insert k (set ks)) fs"
    using Cons.IH[of "add_key ks k"] by (simp only: foldl.simps named_add_key set_add_key fs_def)
  show ?case
  proof (cases "is_array_index k")
    case True
    have "filter (\<lambda>x. x \<notin> insert k (set ks)) fs = filter (\<lambda>x. x \<notin> set ks) fs"
      using True named by (intro filter_cong) auto
    with True step show ?thesis by (simp add: fs_def)
  next
    case False
    have fsk: "first_seen (filter (\<lambda>x. \<not> is_array_index x) (k # xs)) = k # filter (\<lambda>y. y \<noteq> k) fs"
      using False by (simp add: fs_def)
    show ?thesis
    proof (cases "k \<in> set ks")
      case True
      have "filter (\<lambda>x. x \<notin> insert k (set ks)) fs
            = filter (\<lambda>x. x \<notin> set ks) (filter (\<lambda>y. y \<noteq> k) fs)"
        by (simp add: conj_commute)
      with True step show ?thesis unfolding fsk by simp
    next
      case notin: False
      have "filter (\<lambda>x. x \<notin> insert k (set ks)) fs
            = filter (\<lambda>x. x \<notin> set ks) (filter (\<lambda>y. y \<noteq> k) fs)"
        by (simp add: conj_commute)
      with notin False step show ?thesis unfolding fsk by simp
    qed
  qed
qed

lemma deepMerge_own_keys:
  "deepMerge (JObject t) s = Inr (JObject r) \<Longrightarrow> ''__proto__'' \<notin> set (own_keys s) \<Longrightarrow>
   own_keys r = foldl add_key (own_keys t) (own_keys s)"
proof (induction s arbitrary: t)
  case Nil
  then show ?case by simp
next
  case (Cons e rest)
  obtain k v where e: "e = (k, v)" by (cases e)
  have a: "assigns_own t k" and n: "''__proto__'' \<notin> set (own_keys rest)"
    using Cons.prems(2) e by (auto intro: assigns_own_other)
  show ?case
  proof (cases "\<exists>src. v = JObject src")
    case False
    with Cons.prems(1) e a have "deepMerge (JObject (set_prop t k v)) rest = Inr (JObject r)"
      by (simp add: deepMerge_leaf)
    from Cons.IH[OF this n] show ?thesis by (simp add: e own_keys_set_prop)
  next
    case True
    then obtain src where "v = JObject src" by blast
    with Cons.prems(1) e a obtain sub where
      "deepMerge (JObject (set_prop t k sub)) rest = Inr (JObject r)"
      by (auto simp: deepMerge_branch split: sum.splits)
    from Cons.IH[OF this n] show ?thesis by (simp add: e own_keys_set_prop)
  qed
qed

section \<open>The fold over the sources\<close>

lemma merge_loop_own_keys:
  "merge_loop (JObject t) srcs = Inr (JObject r) \<Longrightarrow>
   ''__proto__'' \<notin> set (concat (map own_keys srcs)) \<Longrightarrow>
   own_keys r = foldl add_key (own_keys t) (concat (map own_keys srcs))"
proof (induction srcs arbitrary: t)
  case Nil
  then show ?case by simp
next
  case (Cons s srcs)
  from Cons.prems(1) obtain m where m: "deepMerge (JObject t) s = Inr m"
    and l: "merge_loop m srcs = Inr (JObject r)"
    by (auto split: sum.splits)
  from deepMerge_object_result[OF m] obtain m' where m': "m = JObject m'" by blast
  have n: "''__proto__'' \<notin> set (own_keys s)" "''__proto__'' \<notin> set (concat (map own_keys srcs))"
    using Cons.prems(2) by auto
  show ?case
    using Cons.IH[of m'] l m m' n deepMerge_own_keys[of t s m'] by simp
qed

lemma own_keys_root:
  assumes "mergeLocaleData sources = Inr (JObject merged)"
    and "''__proto__'' \<notin> set (concat (map own_keys sources))"
  shows "own_keys merged = foldl add_key [] (concat (map own_keys sources))"
  using merge_loop_own_keys[of "[]" sources merged] assms
  by (simp add: mergeLocaleData_def)

section \<open>The emitter, entry by entry\<close>

declare processLocaleData.simps [simp del]

lemma entry_lines_simps:
  "entry_lines depth (key, JString s) =
     [repeat ''  '' (depth + 3) @ key @ '': '' @ generateFunctionSignature s @ '';'']"
  "entry_lines depth (key, JObject children) =
     [repeat ''  '' (depth + 3) @ key @ '': {'',
      processLocaleData children (depth + 1),
      repeat ''  '' (depth + 3) @ ''};'']"
  "entry_lines depth (key, JNumber n) = []"
  "entry_lines depth (key, JBoolean b) = []"
  "entry_lines depth (key, JNull) = []"
  by (simp_all add: entry_lines_def)

lemma process_entries_lines:
  "process_entries depth lines data = lines @ concat (map (entry_lines depth) data)"
proof (induction data arbitrary: lines)
  case Nil
  then show ?case by simp
next
  case (Cons e data)
  obtain key v where e: "e = (key, v)" by (cases e)
  show ?case
    by (cases v) (simp_all add: e Cons.IH entry_lines_simps Let_def)
qed

lemma processLocaleData_lines:
  "processLocaleData data depth = join newline (concat (map (entry_lines depth) data))"
  by (simp add: processLocaleData.simps process_entries_lines)

lemma repeat_spaces: "repeat ''  '' n = replicate (2 * n) (CHR '' '')"
  by (induction n) simp_all

lemma entry_lines_skipped:
  "\<not> (typeof v = ''string'' \<or> (typeof v = ''object'' \<and> v \<noteq> JNull)) \<Longrightarrow>
   entry_lines depth (key, v) = []"
  by (cases v) (simp_all add: entry_lines_simps)

lemma concat_map_filter_skipped:
  "(\<And>x. x \<in> set xs \<Longrightarrow> \<not> P x \<Longrightarrow> f x = []) \<Longrightarrow>
   concat (map f (filter P xs)) = concat (map f xs)"
  by (induction xs) auto

section \<open>The normaliser and the orchestrator\<close>

lemma extractParameters_no_match: "paramRegex_exec v = None \<Longrightarrow> extractParameters v = []"
  by (simp add: extractParameters_def extract_loop.simps[of v])

lemma merge_contents_object:
  "merge_contents (JObject t) cs = Inr r \<Longrightarrow> \<exists>r'. r = JObject r'"
proof (induction cs arbitrary: t)
  case Nil
  then show ?case by auto
next
  case (Cons c cs)
  show ?case
  proof (cases c)
    case None
    with Cons show ?thesis by simp
  next
    case (Some d)
    with Cons.prems obtain m where m: "deepMerge (JObject t) d = Inr m"
      and l: "merge_contents m cs = Inr r"
      by (auto split: sum.splits)
    from deepMerge_object_result[OF m] obtain m' where "m = JObject m'" by blast
    with l Cons.IH show ?thesis by blast
  qed
qed

lemma merge_fallback_object:
  "merge_fallback (JObject t) cs = Inr r \<Longrightarrow> \<exists>r'. r = JObject r'"
  by (cases cs) (auto split: jsval.splits dest: deepMerge_object_result)

lemma merge_locales_object:
  "merge_locales (JObject t) ls = Inr r \<Longrightarrow> \<exists>r'. r = JObject r'"
proof (induction ls arbitrary: t)
  case Nil
  then show ?case by auto
next
  case (Cons l ls)
  show ?case
  proof (cases l)
    case (RawContents cs)
    with Cons.prems obtain m where m: "merge_contents (JObject t) cs = Inr m"
      and l: "merge_locales m ls = Inr r"
      by (auto split: sum.splits)
    from merge_contents_object[OF m] obtain m' where "m = JObject m'" by blast
    with l Cons.IH show ?thesis by blast
  next
    case (ContentOnly cs)
    with Cons.prems obtain m where m: "merge_fallback (JObject t) cs = Inr m"
      and l: "merge_locales m ls = Inr r"
      by (auto split: sum.splits)
    from merge_fallback_object[OF m] obtain m' where "m = JObject m'" by blast
    with l Cons.IH show ?thesis by blast
  qed
qed

lemma extractPlainLocaleDataFromTessen_object:
  "extractPlainLocaleDataFromTessen tessen = Inr r \<Longrightarrow> \<exists>data. r = JObject data"
  unfolding extractPlainLocaleDataFromTessen_def by (rule merge_locales_object)

lemma generateTessenDeclaration_Inr:
  "generateTessenDeclaration tessen clientIndex = Inr declaration \<longleftrightarrow>
     (\<exists>data. extractPlainLocaleDataFromTessen tessen = Inr (JObject data)
        \<and> declaration = declaration_text (client_suffix clientIndex) (processLocaleData data 0))"
proof (cases "extractPlainLocaleDataFromTessen tessen")
  case (Inl e)
  then show ?thesis by (simp add: generateTessenDeclaration_def)
next
  case (Inr r)
  then obtain data where "r = JObject data"
    using extractPlainLocaleDataFromTessen_object by blast
  with Inr show ?thesis
    by (auto simp: generateTessenDeclaration_def client_suffix_def Let_def)
qed

declare generate_loop.simps [simp del]

lemma generate_loop_all:
  "\<lbrakk>length blocks = length tessens; i \<le> length tessens;
    \<And>j. i \<le> j \<Longrightarrow> j < length tessens \<Longrightarrow>
      generateTessenDeclaration (tessens ! j) (if 1 < length tessens then Some j else None)
        = Inr (blocks ! j)\<rbrakk>
   \<Longrightarrow> generate_loop tessens i declarations = Inr (declarations @ drop i blocks)"
proof (induction tessens i declarations rule: generate_loop.induct)
  case (1 tessens i declarations)
  show ?case
  proof (cases "i < length tessens")
    case False
    with 1(2,3) show ?thesis by (subst generate_loop.simps) simp
  next
    case True
    have g: "generateTessenDeclaration (tessens ! i) (if 1 < length tessens then Some i else None)
        = Inr (blocks ! i)"
      using 1(4)[of i] True by simp
    have "generate_loop tessens (i + 1) (declarations @ [blocks ! i])
          = Inr ((declarations @ [blocks ! i]) @ drop (i + 1) blocks)"
    proof (rule 1(1)[OF True g 1(2)])
      show "i + 1 \<le> length tessens" using True by simp
    next
      fix j assume "i + 1 \<le> j" "j < length tessens"
      then show "generateTessenDeclaration (tessens ! j)
          (if 1 < length tessens then Some j else None) = Inr (blocks ! j)"
        by (intro 1(4)) simp_all
    qed
    moreover have "blocks ! i # drop (Suc i) blocks = drop i blocks"
      using True 1(2) by (simp add: Cons_nth_drop_Suc)
    ultimately show ?thesis
      using True g by (simp add: generate_loop.simps[of tessens i] split del: if_split)
  qed
qed

lemma generate_loop_Inr:
  "generate_loop tessens i declarations = Inr out \<Longrightarrow> i \<le> length tessens \<Longrightarrow>
   \<exists>new. out = declarations @ new \<and> length new = length tessens - i
     \<and> (\<forall>j. i \<le> j \<and> j < length tessens \<longrightarrow>
          generateTessenDeclaration (tessens ! j) (if 1 < length tessens then Some j else None)
            = Inr (new ! (j - i)))"
proof (induction tessens i declarations rule: generate_loop.induct)
  case (1 tessens i declarations)
  show ?case
  proof (cases "i < length tessens")
    case False
    with 1(2) have "out = declarations" by (subst (asm) generate_loop.simps) simp
    with False 1(3) show ?thesis by auto
  next
    case True
    from 1(2) True obtain d where
      g: "generateTessenDeclaration (tessens ! i) (if 1 < length tessens then Some i else None)
            = Inr d"
      and l: "generate_loop tessens (i + 1) (declarations @ [d]) = Inr out"
      by (auto simp: generate_loop.simps[of tessens i] split: sum.splits split del: if_split)
    have "i + 1 \<le> length tessens" using True by simp
    from 1(1)[OF True g l this] obtain new where
      new: "out = (declarations @ [d]) @ new" "length new = length tessens - (i + 1)"
      "\<forall>j. i + 1 \<le> j \<and> j < length tessens \<longrightarrow>
          generateTessenDeclaration (tessens ! j) (if 1 < length tessens then Some j else None)
            = Inr (new ! (j - (i + 1)))"
      by blast
    have "\<forall>j. i \<le> j \<and> j < length tessens \<longrightarrow>
          generateTessenDeclaration (tessens ! j) (if 1 < length tessens then Some j else None)
            = Inr ((d # new) ! (j - i))"
    proof (intro allI impI)
      fix j assume j: "i \<le> j \<and> j < length tessens"
      show "generateTessenDeclaration (tessens ! j) (if 1 < length tessens then Some j else None)
            = Inr ((d # new) ! (j - i))"
      proof (cases "j = i")
        case True
        with g show ?thesis by (cases "1 < length tessens") simp_all
      next
        case False
        with j have "i + 1 \<le> j" by simp
        with new(3) j have "generateTessenDeclaration (tessens ! j)
            (if 1 < length tessens then Some j else None) = Inr (new ! (j - (i + 1)))"
          by blast
        moreover have "(d # new) ! (j - i) = new ! (j - (i + 1))"
          using False j by (simp add: nth_Cons')
        ultimately show ?thesis by (simp split del: if_split)
      qed
    qed
    moreover have "out = declarations @ d # new" using new(1) by simp
    moreover have "length (d # new) = length tessens - i" using new(2) True by simp
    ultimately show ?thesis by blast
  qed
qed

declare string_of_nat.simps [simp del]

lemma string_of_nat_digit: "n < 10 \<Longrightarrow> string_of_nat n = [digit_char n]"
  by (simp add: string_of_nat.simps[of n])

lemma join_blocks:
  "join sep [b] = b" "join sep (b # c # bs) = b @ sep @ join sep (c # bs)"
  by simp_all

section \<open>The claims\<close>

text \<open>
  C1. The placeholder parser scans a template from left to right for the occurrences of
  \<^verbatim>\<open>{digits}\<close> and \<^verbatim>\<open>{digits:label}\<close>. The pattern matches at the start of a text exactly
  when the text starts with an opening brace, a non-empty run of digits and a closing
  brace, or with an opening brace, a non-empty run of digits, a colon, a non-empty label
  without a closing brace, and a closing brace; the search takes the first position at
  which it matches. The name of a match is its label, or the underscore followed by its
  digits when it has none. The parameters returned are these names in the order of their
  first occurrence, each once and each of type \<open>string\<close>: a later occurrence of a name is
  dropped, and nothing is sorted by index.
\<close>

theorem extractParameters_first_seen_names:
  "extractParameters v =
     map (\<lambda>n. \<lparr>name = n, type = ''string''\<rparr>) (first_seen (placeholder_names v))
   \<and> distinct (map name (extractParameters v))
   \<and> (paramRegex_match s = Some (ds, None, r) \<longleftrightarrow>
        ds \<noteq> [] \<and> list_all is_digit ds \<and> s = ''{'' @ ds @ ''}'' @ r)
   \<and> (paramRegex_match s = Some (ds, Some l, r) \<longleftrightarrow>
        ds \<noteq> [] \<and> list_all is_digit ds \<and> l \<noteq> [] \<and> list_all (\<lambda>x. x \<noteq> CHR ''}'') l
        \<and> s = ''{'' @ ds @ '':'' @ l @ ''}'' @ r)
   \<and> paramRegex_exec s =
        Option.bind (find (\<lambda>t. paramRegex_match t \<noteq> None) (map (\<lambda>i. drop i s) [0..<length s]))
          paramRegex_match
   \<and> paramName_of ds None = ''_'' @ ds
   \<and> paramName_of ds (Some (c # l)) = c # l
   \<and> extractParameters ''{0:user} greets {1:user}'' = [\<lparr>name = ''user'', type = ''string''\<rparr>]
   \<and> extractParameters ''{1} precedes {0}'' =
        [\<lparr>name = ''_1'', type = ''string''\<rparr>, \<lparr>name = ''_0'', type = ''string''\<rparr>]"
proof -
  have a: "extractParameters v =
      map (\<lambda>n. \<lparr>name = n, type = ''string''\<rparr>) (first_seen (placeholder_names v))"
    using extractParameters_names[of v] by (simp add: string_param_def[abs_def])
  have b: "distinct (map name (extractParameters v))"
    by (simp add: a comp_def)
  have c: "extractParameters ''{0:user} greets {1:user}'' = [\<lparr>name = ''user'', type = ''string''\<rparr>]"
    by (simp add: extractParameters_def extract_loop.simps paramRegex_match_def
        paramName_of_def is_digit_def)
  have d: "extractParameters ''{1} precedes {0}'' =
        [\<lparr>name = ''_1'', type = ''string''\<rparr>, \<lparr>name = ''_0'', type = ''string''\<rparr>]"
    by (simp add: extractParameters_def extract_loop.simps paramRegex_match_def
        paramName_of_def is_digit_def)
  show ?thesis
    using a b c d paramRegex_match_plain[of s ds r] paramRegex_match_labelled[of s ds l r]
      paramRegex_exec_leftmost[of s]
    by (simp add: paramName_of_def)
qed

text \<open>
  C5. The signature renderer returns \<^verbatim>\<open>() => string\<close> for the empty parameter list. For a
  non-empty list it returns an opening parenthesis, the parameters in the order supplied,
  each as its name, a colon, a space and its type, separated by a comma and a space, a
  closing parenthesis and \<^verbatim>\<open> => string\<close>. The type of every parameter the parser produces
  is \<open>string\<close>, so a template's signature lists \<^verbatim>\<open>name: string\<close> for each of its parameters.
  The template \<^verbatim>\<open>{0:user} is now a {1:role}\<close> gives \<^verbatim>\<open>(user: string, role: string) => string\<close>.
\<close>

theorem render_signature_form:
  "render_signature [] = ''() => string''
   \<and> render_signature (p # ps) =
        ''('' @ join '', '' (map (\<lambda>q. name q @ '': '' @ type q) (p # ps)) @ '') => string''
   \<and> generateFunctionSignature v =
        (if extractParameters v = [] then ''() => string''
         else ''('' @ join '', '' (map (\<lambda>q. name q @ '': string'') (extractParameters v))
              @ '') => string'')
   \<and> generateFunctionSignature ''{0:user} is now a {1:role}''
        = ''(user: string, role: string) => string''"
proof -
  have t: "map (\<lambda>q. name q @ '': '' @ type q) (extractParameters v)
           = map (\<lambda>q. name q @ '': string'') (extractParameters v)"
    by (simp add: extractParameters_names string_param_def)
  have e: "generateFunctionSignature ''{0:user} is now a {1:role}''
        = ''(user: string, role: string) => string''"
    by (simp add: generateFunctionSignature_def render_signature_def extractParameters_def
        extract_loop.simps paramRegex_match_def paramName_of_def is_digit_def)
  have g: "generateFunctionSignature v =
        (if extractParameters v = [] then ''() => string''
         else ''('' @ join '', '' (map (\<lambda>q. name q @ '': string'') (extractParameters v))
              @ '') => string'')"
    unfolding generateFunctionSignature_def render_signature_def Let_def t by simp
  have r: "render_signature [] = ''() => string''"
    "render_signature (p # ps) =
        ''('' @ join '', '' (map (\<lambda>q. name q @ '': '' @ type q) (p # ps)) @ '') => string''"
    by (simp_all add: render_signature_def)
  from r g e show ?thesis by blast
qed

text \<open>
  C2, at a key where the code does not do what the claim says. The incoming node
  \<^verbatim>\<open>{"__proto__": "x"}\<close>, as \<^verbatim>\<open>JSON.parse\<close> returns it, is a Shape Node with one Leaf. Merged
  into the empty object it leaves the empty object: the assignment \<^verbatim>\<open>target[key] = value\<close>
  runs the setter that every object inherits from \<^verbatim>\<open>Object.prototype\<close>, which ignores a
  string, so the Leaf is not assigned at its key. The same holds inside a merge and in the
  fold: merging \<^verbatim>\<open>{"hello": "hi", "__proto__": "x"}\<close> into the empty object, or the list of
  this one source, gives \<^verbatim>\<open>{"hello": "hi"}\<close>. An object that has the key as an own property
  is not concerned: there the Leaf replaces the value.
\<close>

theorem deepMerge_drops_proto_leaf:
  "shape_node (JObject [(''__proto__'', JString ''x'')])
   \<and> deepMerge (JObject []) [(''__proto__'', JString ''x'')] = Inr (JObject [])
   \<and> shape_node (JObject [(''hello'', JString ''hi''), (''__proto__'', JString ''x'')])
   \<and> deepMerge (JObject []) [(''hello'', JString ''hi''), (''__proto__'', JString ''x'')]
       = Inr (JObject [(''hello'', JString ''hi'')])
   \<and> mergeLocaleData [[(''hello'', JString ''hi''), (''__proto__'', JString ''x'')]]
       = Inr (JObject [(''hello'', JString ''hi'')])
   \<and> deepMerge (JObject [(''__proto__'', JString ''old'')]) [(''__proto__'', JString ''x'')]
       = Inr (JObject [(''__proto__'', JString ''x'')])"
proof -
  have ev: "\<not> is_array_index ''hello''"
    by (simp add: is_array_index_def is_digit_def)
  show ?thesis
    by (simp add: mergeLocaleData_def deepMerge.simps set_prop_def has_key_def merge_eval ev)
qed




text \<open>
  C7. The declaration emitter returns the lines of the keys of the mapping, in the order
  of its entries, joined by line breaks. At depth \<open>D\<close> every line of the mapping starts
  with \<open>D + 3\<close> indentation steps of two spaces (the three of the enclosing declaration and
  one for each level of nesting). A key with a string gives one line: the indentation,
  the key, a colon and a space, the signature that the signature renderer makes of the
  parameters that the placeholder parser finds in the string, and a semicolon. A key with
  an object gives the indentation, the key and \<^verbatim>\<open>: {\<close>, then the rendering of the object
  at depth \<open>D + 1\<close>, then the indentation and \<^verbatim>\<open>};\<close>.
\<close>

theorem processLocaleData_rendering:
  "processLocaleData data depth =
     join newline (concat (map (\<lambda>(key, v).
        case v of
          JString s \<Rightarrow>
            [repeat ''  '' (depth + 3) @ key @ '': ''
               @ render_signature (extractParameters s) @ '';'']
        | JObject children \<Rightarrow>
            [repeat ''  '' (depth + 3) @ key @ '': {'',
             processLocaleData children (depth + 1),
             repeat ''  '' (depth + 3) @ ''};'']
        | _ \<Rightarrow> []) data))
   \<and> repeat ''  '' (depth + 3) = replicate (2 * (depth + 3)) (CHR '' '')
   \<and> processLocaleData
         [(''hello'', JString ''{0:user} is now a {1:role}''),
          (''nested'', JObject [(''bye'', JString ''bye'')])] 0
       = ''      hello: (user: string, role: string) => string;'' @ newline @
         ''      nested: {'' @ newline @
         ''        bye: () => string;'' @ newline @
         ''      };''"
proof -
  have f: "entry_lines depth = (\<lambda>(key, v).
        case v of
          JString s \<Rightarrow>
            [repeat ''  '' (depth + 3) @ key @ '': ''
               @ render_signature (extractParameters s) @ '';'']
        | JObject children \<Rightarrow>
            [repeat ''  '' (depth + 3) @ key @ '': {'',
             processLocaleData children (depth + 1),
             repeat ''  '' (depth + 3) @ ''};'']
        | _ \<Rightarrow> [])"
    by (rule ext)
      (auto simp: entry_lines_simps generateFunctionSignature_def split: prod.splits jsval.splits)
  have a: "processLocaleData data depth =
     join newline (concat (map (\<lambda>(key, v).
        case v of
          JString s \<Rightarrow>
            [repeat ''  '' (depth + 3) @ key @ '': ''
               @ render_signature (extractParameters s) @ '';'']
        | JObject children \<Rightarrow>
            [repeat ''  '' (depth + 3) @ key @ '': {'',
             processLocaleData children (depth + 1),
             repeat ''  '' (depth + 3) @ ''};'']
        | _ \<Rightarrow> []) data))"
    unfolding f[symmetric] by (rule processLocaleData_lines)
  have s1: "generateFunctionSignature ''{0:user} is now a {1:role}''
              = ''(user: string, role: string) => string''"
    by (simp add: generateFunctionSignature_def render_signature_def extractParameters_def
        extract_loop.simps paramRegex_match_def paramName_of_def is_digit_def)
  have s2: "generateFunctionSignature ''bye'' = ''() => string''"
    by (simp add: generateFunctionSignature_def render_signature_def extractParameters_def
        extract_loop.simps paramRegex_match_def)
  have c: "processLocaleData
         [(''hello'', JString ''{0:user} is now a {1:role}''),
          (''nested'', JObject [(''bye'', JString ''bye'')])] 0
       = ''      hello: (user: string, role: string) => string;'' @ newline @
         ''      nested: {'' @ newline @
         ''        bye: () => string;'' @ newline @
         ''      };''"
    by (simp add: processLocaleData_lines entry_lines_simps s1 s2 numeral_3_eq_3)
  from a repeat_spaces[of "depth + 3"] c show ?thesis by blast
qed

text \<open>
  C10. A key whose value is neither a string nor a non-null object gives no line: the
  emitter returns for a mapping what it returns for the mapping without these keys, so
  the other keys are rendered as if the key were not there. A number, a boolean and
  \<open>null\<close> are such values.
\<close>

theorem processLocaleData_skips_other_values:
  "processLocaleData data depth =
     processLocaleData
       (filter (\<lambda>(key, v). typeof v = ''string'' \<or> (typeof v = ''object'' \<and> v \<noteq> JNull)) data)
       depth
   \<and> processLocaleData (front @ (key, JNumber n) # rest) depth
       = processLocaleData (front @ rest) depth
   \<and> processLocaleData (front @ (key, JBoolean b) # rest) depth
       = processLocaleData (front @ rest) depth
   \<and> processLocaleData (front @ (key, JNull) # rest) depth
       = processLocaleData (front @ rest) depth
   \<and> processLocaleData [(''count'', JNumber 3), (''hello'', JString ''hi''), (''on'', JBoolean True),
         (''none'', JNull)] 0
       = ''      hello: () => string;''"
proof -
  have a: "processLocaleData data depth =
     processLocaleData
       (filter (\<lambda>(key, v). typeof v = ''string'' \<or> (typeof v = ''object'' \<and> v \<noteq> JNull)) data)
       depth"
  proof -
    have "concat (map (entry_lines depth)
            (filter (\<lambda>(key, v). typeof v = ''string'' \<or> (typeof v = ''object'' \<and> v \<noteq> JNull)) data))
          = concat (map (entry_lines depth) data)"
    proof (rule concat_map_filter_skipped)
      fix x :: "string \<times> jsval"
      assume "\<not> (case x of (key, v) \<Rightarrow> typeof v = ''string'' \<or> (typeof v = ''object'' \<and> v \<noteq> JNull))"
      then show "entry_lines depth x = []"
        by (cases x; cases "snd x") (auto simp: entry_lines_simps)
    qed
    then show ?thesis by (simp add: processLocaleData_lines)
  qed
  have b: "processLocaleData (front @ (key, v) # rest) depth = processLocaleData (front @ rest) depth"
    if "entry_lines depth (key, v) = []" for v
    unfolding processLocaleData_lines using that by simp
  have s: "generateFunctionSignature ''hi'' = ''() => string''"
    by (simp add: generateFunctionSignature_def render_signature_def extractParameters_def
        extract_loop.simps paramRegex_match_def)
  have c: "processLocaleData [(''count'', JNumber 3), (''hello'', JString ''hi''),
         (''on'', JBoolean True), (''none'', JNull)] 0
       = ''      hello: () => string;''"
    by (simp add: processLocaleData_lines entry_lines_simps s numeral_3_eq_3)
  from a b[of "JNumber n"] b[of "JBoolean b"] b[of JNull] c show ?thesis
    by (simp add: entry_lines_simps)
qed

text \<open>
  C9, at a well-formed input on which a merge raises. The Shape Node
  \<^verbatim>\<open>{"__proto__": {"__proto__": {"a": "1"}}}\<close>, as \<^verbatim>\<open>JSON.parse\<close> returns it, holds strings and
  objects only. Merging it into the empty object recurses into \<^verbatim>\<open>Object.prototype\<close> at the
  first \<^verbatim>\<open>__proto__\<close> (the key is in the target, and \<^verbatim>\<open>typeof\<close> says \<^verbatim>\<open>'object'\<close> of what the
  inherited getter returns), then into \<^verbatim>\<open>null\<close> at the second (the prototype of
  \<^verbatim>\<open>Object.prototype\<close>), where the assignment of \<open>a\<close> raises a \<^verbatim>\<open>TypeError\<close>. So
  \<^verbatim>\<open>deepMerge\<close> does not return on this input, nor do \<^verbatim>\<open>mergeLocaleData\<close> and the whole
  generation for a source that holds it.
\<close>

theorem deepMerge_raises_on_nested_proto:
  "shape_node (JObject [(''__proto__'', JObject [(''__proto__'', JObject [(''a'', JString ''1'')])])])
   \<and> deepMerge (JObject [])
        [(''__proto__'', JObject [(''__proto__'', JObject [(''a'', JString ''1'')])])]
       = Inl TypeError
   \<and> mergeLocaleData
        [[(''__proto__'', JObject [(''__proto__'', JObject [(''a'', JString ''1'')])])]]
       = Inl TypeError
   \<and> generateLocalizationTypes
        [[RawContents
            [Some [(''__proto__'', JObject [(''__proto__'', JObject [(''a'', JString ''1'')])])]]]]
       = Inl TypeError"
  by (simp add: mergeLocaleData_def deepMerge.simps set_prop_def has_key_def merge_eval
      generateLocalizationTypes_def generate_loop.simps generateTessenDeclaration_def
      extractPlainLocaleDataFromTessen_def)

text \<open>
  C3. When every source normalises to a tree, the orchestrator returns the blocks of the
  sources in input order, joined by two line breaks, which leaves exactly one empty line
  between a block and the next. The block of the source at index \<open>i\<close> (from 0) is the
  declaration text around the rendering of its tree, whose first line is \<^verbatim>\<open>declare global {\<close>
  followed by the annotation: nothing when the list has one source, and
  \<^verbatim>\<open> // Client \<close> with the decimal numeral of \<open>i + 1\<close> when it has more than one.
\<close>

theorem generateLocalizationTypes_blocks:
  assumes "map extractPlainLocaleDataFromTessen tessens = map (\<lambda>data. Inr (JObject data)) datas"
  shows "generateLocalizationTypes tessens =
           Inr (join (newline @ newline)
             (map (\<lambda>i. declaration_text
                        (if 1 < length tessens then '' // Client '' @ string_of_nat (i + 1) else [])
                        (processLocaleData (datas ! i) 0))
                  [0..<length tessens]))
     \<and> (\<exists>rest. declaration_text suffix body = ''declare global {'' @ suffix @ newline @ rest)
     \<and> join (newline @ newline) [b] = b
     \<and> join (newline @ newline) (b # c # bs) = b @ newline @ newline @ join (newline @ newline) (c # bs)"
proof -
  define n where "n = length tessens"
  define blocks where "blocks = map (\<lambda>i. declaration_text
                        (if 1 < n then '' // Client '' @ string_of_nat (i + 1) else [])
                        (processLocaleData (datas ! i) 0)) [0..<n]"
  have len: "length datas = n"
    using arg_cong[OF assms, of length] by (simp add: n_def)
  have each: "generateTessenDeclaration (tessens ! j) (if 1 < length tessens then Some j else None)
        = Inr (blocks ! j)" if "0 \<le> j" "j < length tessens" for j
  proof -
    have "extractPlainLocaleDataFromTessen (tessens ! j) = Inr (JObject (datas ! j))"
      using arg_cong[OF assms, of "\<lambda>xs. xs ! j"] that len by (simp add: n_def)
    moreover have "blocks ! j = declaration_text
        (client_suffix (if 1 < length tessens then Some j else None))
        (processLocaleData (datas ! j) 0)"
      using that by (simp add: blocks_def n_def client_suffix_def)
    ultimately show ?thesis
      by (subst generateTessenDeclaration_Inr) blast
  qed
  have "generate_loop tessens 0 [] = Inr ([] @ drop 0 blocks)"
  proof (rule generate_loop_all)
    show "length blocks = length tessens" by (simp add: blocks_def n_def)
    show "0 \<le> length tessens" by simp
    fix j assume "0 \<le> j" "j < length tessens"
    then show "generateTessenDeclaration (tessens ! j)
        (if 1 < length tessens then Some j else None) = Inr (blocks ! j)"
      by (rule each)
  qed
  then have main: "generateLocalizationTypes tessens = Inr (join (newline @ newline) blocks)"
    by (simp add: generateLocalizationTypes_def)
  have first: "\<exists>rest. declaration_text suffix body = ''declare global {'' @ suffix @ newline @ rest"
    by (simp add: declaration_text_def)
  from main first show ?thesis
    unfolding blocks_def n_def by (simp only: join_blocks) simp
qed

theorem generateLocalizationTypes_blocks_witness:
  "map extractPlainLocaleDataFromTessen
       [[RawContents [Some [(''hello'', JString ''hi'')]]],
        [RawContents [Some [(''bye'', JString ''{0}'')]]]]
     = map (\<lambda>data. Inr (JObject data)) [[(''hello'', JString ''hi'')], [(''bye'', JString ''{0}'')]]
   \<and> generateLocalizationTypes
       [[RawContents [Some [(''hello'', JString ''hi'')]]],
        [RawContents [Some [(''bye'', JString ''{0}'')]]]]
     = Inr (''declare global { // Client 1'' @ newline @
            ''  namespace Tessen {'' @ newline @
            ''    interface Localization {'' @ newline @
            ''      hello: () => string;'' @ newline @
            ''    }'' @ newline @
            ''  }'' @ newline @
            ''}'' @ newline @
            ''    '' @ newline @
            ''export { };'' @ newline @
            newline @
            ''declare global { // Client 2'' @ newline @
            ''  namespace Tessen {'' @ newline @
            ''    interface Localization {'' @ newline @
            ''      bye: (_0: string) => string;'' @ newline @
            ''    }'' @ newline @
            ''  }'' @ newline @
            ''}'' @ newline @
            ''    '' @ newline @
            ''export { };'')
   \<and> map extractPlainLocaleDataFromTessen [[RawContents [Some [(''hello'', JString ''hi'')]]]]
     = map (\<lambda>data. Inr (JObject data)) [[(''hello'', JString ''hi'')]]
   \<and> generateLocalizationTypes [[RawContents [Some [(''hello'', JString ''hi'')]]]]
     = Inr (''declare global {'' @ newline @
            ''  namespace Tessen {'' @ newline @
            ''    interface Localization {'' @ newline @
            ''      hello: () => string;'' @ newline @
            ''    }'' @ newline @
            ''  }'' @ newline @
            ''}'' @ newline @
            ''    '' @ newline @
            ''export { };'')"
proof -
  let ?T1 = "[RawContents [Some [(''hello'', JString ''hi'')]]]"
  let ?T2 = "[RawContents [Some [(''bye'', JString ''{0}'')]]]"
  have ev: "\<not> is_array_index ''hello''" "\<not> is_array_index ''bye''"
    by (simp_all add: is_array_index_def is_digit_def)
  have x1: "extractPlainLocaleDataFromTessen ?T1 = Inr (JObject [(''hello'', JString ''hi'')])"
    by (simp add: extractPlainLocaleDataFromTessen_def deepMerge.simps set_prop_def has_key_def merge_eval ev)
  have x2: "extractPlainLocaleDataFromTessen ?T2 = Inr (JObject [(''bye'', JString ''{0}'')])"
    by (simp add: extractPlainLocaleDataFromTessen_def deepMerge.simps set_prop_def has_key_def merge_eval ev)
  have h2: "map extractPlainLocaleDataFromTessen [?T1, ?T2]
     = map (\<lambda>data. Inr (JObject data)) [[(''hello'', JString ''hi'')], [(''bye'', JString ''{0}'')]]"
    by (simp add: x1 x2)
  have h1: "map extractPlainLocaleDataFromTessen [?T1]
     = map (\<lambda>data. Inr (JObject data)) [[(''hello'', JString ''hi'')]]"
    by (simp add: x1)
  have s1: "generateFunctionSignature ''hi'' = ''() => string''"
    by (simp add: generateFunctionSignature_def render_signature_def extractParameters_def
        extract_loop.simps paramRegex_match_def)
  have s2: "generateFunctionSignature ''{0}'' = ''(_0: string) => string''"
    by (simp add: generateFunctionSignature_def render_signature_def extractParameters_def
        extract_loop.simps paramRegex_match_def paramName_of_def is_digit_def)
  have p1: "processLocaleData [(''hello'', JString ''hi'')] 0 = ''      hello: () => string;''"
    by (simp add: processLocaleData_lines entry_lines_simps s1 numeral_3_eq_3)
  have p2: "processLocaleData [(''bye'', JString ''{0}'')] 0 = ''      bye: (_0: string) => string;''"
    by (simp add: processLocaleData_lines entry_lines_simps s2 numeral_3_eq_3)
  have n: "string_of_nat (Suc 0) = ''1''" "string_of_nat (Suc (Suc 0)) = ''2''"
    by (simp_all add: string_of_nat_digit digit_char_def)
  have up: "[0..<2] = [0, 1]" by (simp add: upt_rec)
  have r2: "generateLocalizationTypes [?T1, ?T2]
     = Inr (''declare global { // Client 1'' @ newline @
            ''  namespace Tessen {'' @ newline @
            ''    interface Localization {'' @ newline @
            ''      hello: () => string;'' @ newline @
            ''    }'' @ newline @
            ''  }'' @ newline @
            ''}'' @ newline @
            ''    '' @ newline @
            ''export { };'' @ newline @
            newline @
            ''declare global { // Client 2'' @ newline @
            ''  namespace Tessen {'' @ newline @
            ''    interface Localization {'' @ newline @
            ''      bye: (_0: string) => string;'' @ newline @
            ''    }'' @ newline @
            ''  }'' @ newline @
            ''}'' @ newline @
            ''    '' @ newline @
            ''export { };'')"
    using generateLocalizationTypes_blocks[OF h2]
    by (simp add: up p1 p2 n declaration_text_def)
  have r1: "generateLocalizationTypes [?T1]
     = Inr (''declare global {'' @ newline @
            ''  namespace Tessen {'' @ newline @
            ''    interface Localization {'' @ newline @
            ''      hello: () => string;'' @ newline @
            ''    }'' @ newline @
            ''  }'' @ newline @
            ''}'' @ newline @
            ''    '' @ newline @
            ''export { };'')"
    using generateLocalizationTypes_blocks[OF h1]
    by (simp add: p1 declaration_text_def)
  from h2 r2 h1 r1 show ?thesis by blast
qed




text \<open>
  C8, at an input on which a second run returns another text. The source holds one
  object, \<^verbatim>\<open>{"a": {"y": "Y"}, "__proto__": {"a": {"x": "X"}}}\<close> as \<^verbatim>\<open>JSON.parse\<close> returns it: a
  Shape Node, at the addresses \<open>1\<close> to \<open>4\<close> of the store. The first run merges \<open>a\<close> into its
  new object and renders it; at the key \<^verbatim>\<open>__proto__\<close> it recurses into \<^verbatim>\<open>Object.prototype\<close> and
  gives it a property \<open>a\<close>. The store it leaves holds the four objects of the source as they
  were. In that store the second run finds \<open>a\<close> in its new object, inherited, merges into
  the inherited object, and renders an object without own properties: the interface is
  empty.
\<close>

theorem generateLocalizationTypes_h_second_run_differs:
  "generateLocalizationTypes_h 20
       [Object_prototype,
        \<lparr>prototype = Some 0, slots = [(''a'', Data (HRef 2)), (''__proto__'', Data (HRef 3))]\<rparr>,
        \<lparr>prototype = Some 0, slots = [(''y'', Data (HString ''Y''))]\<rparr>,
        \<lparr>prototype = Some 0, slots = [(''a'', Data (HRef 4))]\<rparr>,
        \<lparr>prototype = Some 0, slots = [(''x'', Data (HString ''X''))]\<rparr>]
       [[RawContents_h [Some 1]]]
     = Some (Inr
         ([Object_prototype\<lparr>slots := slots Object_prototype @ [(''a'', Data (HRef 7))]\<rparr>,
           \<lparr>prototype = Some 0, slots = [(''a'', Data (HRef 2)), (''__proto__'', Data (HRef 3))]\<rparr>,
           \<lparr>prototype = Some 0, slots = [(''y'', Data (HString ''Y''))]\<rparr>,
           \<lparr>prototype = Some 0, slots = [(''a'', Data (HRef 4))]\<rparr>,
           \<lparr>prototype = Some 0, slots = [(''x'', Data (HString ''X''))]\<rparr>,
           \<lparr>prototype = Some 0, slots = [(''a'', Data (HRef 6))]\<rparr>,
           \<lparr>prototype = Some 0, slots = [(''y'', Data (HString ''Y''))]\<rparr>,
           \<lparr>prototype = Some 0, slots = [(''x'', Data (HString ''X''))]\<rparr>],
          ''declare global {'' @ newline @
          ''  namespace Tessen {'' @ newline @
          ''    interface Localization {'' @ newline @
          ''      a: {'' @ newline @
          ''        y: () => string;'' @ newline @
          ''      };'' @ newline @
          ''    }'' @ newline @
          ''  }'' @ newline @
          ''}'' @ newline @
          ''    '' @ newline @
          ''export { };''))
   \<and> generateLocalizationTypes_h 20
       [Object_prototype\<lparr>slots := slots Object_prototype @ [(''a'', Data (HRef 7))]\<rparr>,
        \<lparr>prototype = Some 0, slots = [(''a'', Data (HRef 2)), (''__proto__'', Data (HRef 3))]\<rparr>,
        \<lparr>prototype = Some 0, slots = [(''y'', Data (HString ''Y''))]\<rparr>,
        \<lparr>prototype = Some 0, slots = [(''a'', Data (HRef 4))]\<rparr>,
        \<lparr>prototype = Some 0, slots = [(''x'', Data (HString ''X''))]\<rparr>,
        \<lparr>prototype = Some 0, slots = [(''a'', Data (HRef 6))]\<rparr>,
        \<lparr>prototype = Some 0, slots = [(''y'', Data (HString ''Y''))]\<rparr>,
        \<lparr>prototype = Some 0, slots = [(''x'', Data (HString ''X''))]\<rparr>]
       [[RawContents_h [Some 1]]]
     = Some (Inr
         ([Object_prototype\<lparr>slots := slots Object_prototype @ [(''a'', Data (HRef 7))]\<rparr>,
           \<lparr>prototype = Some 0, slots = [(''a'', Data (HRef 2)), (''__proto__'', Data (HRef 3))]\<rparr>,
           \<lparr>prototype = Some 0, slots = [(''y'', Data (HString ''Y''))]\<rparr>,
           \<lparr>prototype = Some 0, slots = [(''a'', Data (HRef 4))]\<rparr>,
           \<lparr>prototype = Some 0, slots = [(''x'', Data (HString ''X''))]\<rparr>,
           \<lparr>prototype = Some 0, slots = [(''a'', Data (HRef 6))]\<rparr>,
           \<lparr>prototype = Some 0, slots = [(''y'', Data (HString ''Y''))]\<rparr>,
           \<lparr>prototype = Some 0,
              slots = [(''x'', Data (HString ''X'')), (''y'', Data (HString ''Y''))]\<rparr>,
           \<lparr>prototype = Some 0, slots = []\<rparr>],
          ''declare global {'' @ newline @
          ''  namespace Tessen {'' @ newline @
          ''    interface Localization {'' @ newline @
          [] @ newline @
          ''    }'' @ newline @
          ''  }'' @ newline @
          ''}'' @ newline @
          ''    '' @ newline @
          ''export { };''))
   \<and> ''declare global {'' @ newline @
       ''  namespace Tessen {'' @ newline @
       ''    interface Localization {'' @ newline @
       ''      a: {'' @ newline @
       ''        y: () => string;'' @ newline @
       ''      };'' @ newline @
       ''    }'' @ newline @
       ''  }'' @ newline @
       ''}'' @ newline @
       ''    '' @ newline @
       ''export { };''
     \<noteq> ''declare global {'' @ newline @
       ''  namespace Tessen {'' @ newline @
       ''    interface Localization {'' @ newline @
       [] @ newline @
       ''    }'' @ newline @
       ''  }'' @ newline @
       ''}'' @ newline @
       ''    '' @ newline @
       ''export { };''"
  by code_simp
end
